theory Spec2Isabelle
  imports Main "HOL-Library.Word"
begin

section \<open>Values of the text client\<close>

text \<open>
  The client is \<^verbatim>\<open>writeWithAssistant.py\<close>: a session class
  \<^verbatim>\<open>SampleTextAssistant\<close> with the method \<^verbatim>\<open>assist\<close>, and the entry point
  \<^verbatim>\<open>main\<close>. Python \<^verbatim>\<open>bytes\<close> are lists of octets, \<^verbatim>\<open>str\<close> is \<open>string\<close>,
  and a value that may be \<^verbatim>\<open>None\<close> is an \<open>option\<close>.
\<close>

type_synonym bytes = "8 word list"

subsection \<open>Exceptions\<close>

text \<open>
  An exception is its class and the text \<^verbatim>\<open>str(e)\<close> gives. \<open>KeyboardInterrupt\<close> is
  the one class here that does not derive from \<^verbatim>\<open>Exception\<close>, so an
  \<^verbatim>\<open>except Exception\<close> clause lets it through.
\<close>

datatype exn_class =
  OSError | JSONDecodeError | TypeError | RefreshError | RpcError | Abort | KeyboardInterrupt

datatype exn = Exn (cls: exn_class) (msg: string)

definition is_Exception :: "exn \<Rightarrow> bool" where
  "is_Exception e = (cls e \<noteq> KeyboardInterrupt)"

subsection \<open>The module \<^verbatim>\<open>config\<close>\<close>

text \<open>
  The module \<^verbatim>\<open>config\<close> is imported by the program and is not part of its source
  file, so the entries of \<^verbatim>\<open>config.writtenAssist\<close> that the functions read are a
  parameter \<open>cfg\<close> of the model.
\<close>

record AudioOutConfig =
  encoding :: string
  sample_rate_hertz :: int
  volume_percentage :: int

record writtenAssist =
  audio_out_config :: AudioOutConfig
  promptIn :: string
  promptOut :: string

subsection \<open>Messages of the Assist call\<close>

record DialogStateIn =
  language_code :: string
  conversation_state :: bytes

record DeviceConfig =
  device_id :: string
  device_model_id :: string

record AssistConfig =
  audio_out_config :: AudioOutConfig
  dialog_state_in :: DialogStateIn
  device_config :: DeviceConfig
  text_query :: string

record AssistRequest =
  config :: AssistConfig

text \<open>
  In a response an unset \<^verbatim>\<open>bytes\<close> or \<^verbatim>\<open>string\<close> field reads as the empty value,
  which is what the truth tests of \<^verbatim>\<open>assist\<close> look at.
\<close>

record DialogStateOut =
  conversation_state :: bytes
  supplemental_display_text :: string

record AssistResponse =
  dialog_state_out :: DialogStateOut

text \<open>
  The iterator that \<^verbatim>\<open>Assist\<close> returns yields response messages and then either
  stops or raises (deadline exceeded, transport failure), possibly after messages were
  already delivered.
\<close>

datatype response_stream = Done | Fail exn | Msg AssistResponse response_stream

fun received :: "response_stream \<Rightarrow> AssistResponse list" where
  "received Done = []"
| "received (Fail e) = []"
| "received (Msg resp rest) = resp # received rest"

fun ending :: "response_stream \<Rightarrow> exn option" where
  "ending Done = None"
| "ending (Fail e) = Some e"
| "ending (Msg resp rest) = ending rest"

subsection \<open>Credentials, channel, stub and the remote service\<close>

record Credentials =
  token :: "string option"
  info :: "(string \<times> string) list"

record Channel =
  credentials :: Credentials
  target :: string

record EmbeddedAssistantStub =
  channel :: Channel

text \<open>
  The remote service is the environment of the client. \<open>service net k reqs d\<close> is the
  response stream it delivers to the call number \<open>k\<close> (counted from 0) made with the
  requests \<open>reqs\<close> and the deadline \<open>d\<close>; \<open>exchanges\<close> records every call made so far:
  the channel it went through, what was sent, the deadline, and what came back.
\<close>

record exchange =
  via :: Channel
  sent :: "AssistRequest list"
  within :: int
  replies :: response_stream

record network =
  service :: "nat \<Rightarrow> AssistRequest list \<Rightarrow> int \<Rightarrow> response_stream"
  exchanges :: "exchange list"

definition Assist ::
  "EmbeddedAssistantStub \<Rightarrow> AssistRequest list \<Rightarrow> int \<Rightarrow> network \<Rightarrow> response_stream \<times> network" where
  "Assist stub reqs d net =
     (let rs = service net (length (exchanges net)) reqs d
      in (rs, net\<lparr>exchanges := exchanges net @
            [\<lparr>via = channel stub, sent = reqs, within = d, replies = rs\<rparr>]\<rparr>))"

section \<open>The session: \<^verbatim>\<open>SampleTextAssistant\<close>\<close>

record SampleTextAssistant =
  language_code :: string
  device_model_id :: string
  device_id :: string
  conversation_state :: "bytes option"
  assistant :: EmbeddedAssistantStub
  deadline :: int

definition SampleTextAssistant_init ::
  "string \<Rightarrow> string \<Rightarrow> string \<Rightarrow> Channel \<Rightarrow> int \<Rightarrow> SampleTextAssistant" where
  "SampleTextAssistant_init language_code' device_model_id' device_id' channel' deadline_sec =
     \<lparr>SampleTextAssistant.language_code = language_code',
      SampleTextAssistant.device_model_id = device_model_id',
      SampleTextAssistant.device_id = device_id',
      SampleTextAssistant.conversation_state = None,
      assistant = \<lparr>channel = channel'\<rparr>,
      deadline = deadline_sec\<rparr>"

text \<open>\<^verbatim>\<open>__enter__\<close> returns the session itself.\<close>

definition SampleTextAssistant_enter :: "SampleTextAssistant \<Rightarrow> SampleTextAssistant" where
  "SampleTextAssistant_enter self = self"

text \<open>
  \<^verbatim>\<open>__exit__\<close> returns \<^verbatim>\<open>False\<close> when it is given an exception and \<^verbatim>\<open>None\<close>
  otherwise, and does nothing else. The \<^verbatim>\<open>with\<close> statement swallows the exception
  only when the returned value is true.
\<close>

definition SampleTextAssistant_exit :: "SampleTextAssistant \<Rightarrow> exn option \<Rightarrow> bool option" where
  "SampleTextAssistant_exit self e = (if e \<noteq> None then Some False else None)"

definition suppresses :: "bool option \<Rightarrow> bool" where
  "suppresses r = (r = Some True)"

text \<open>
  \<^verbatim>\<open>iter_assist_requests\<close> is a generator that yields one request; the list is what
  the generator yields. The test \<^verbatim>\<open>if self.conversation_state\<close> is false for
  \<^verbatim>\<open>None\<close> and for \<^verbatim>\<open>b''\<close>.
\<close>

definition iter_assist_requests ::
  "writtenAssist \<Rightarrow> SampleTextAssistant \<Rightarrow> string \<Rightarrow> AssistRequest list" where
  "iter_assist_requests cfg self text_query' =
     (let dialog_state_in0 =
            \<lparr>DialogStateIn.language_code = SampleTextAssistant.language_code self,
             DialogStateIn.conversation_state = []\<rparr>;
          dialog_state_in1 =
            (case SampleTextAssistant.conversation_state self of
               None \<Rightarrow> dialog_state_in0
             | Some b \<Rightarrow>
                 if b \<noteq> [] then dialog_state_in0\<lparr>DialogStateIn.conversation_state := b\<rparr>
                 else dialog_state_in0);
          gConfig =
            \<lparr>AssistConfig.audio_out_config =
               \<lparr>encoding = encoding (writtenAssist.audio_out_config cfg),
                sample_rate_hertz = sample_rate_hertz (writtenAssist.audio_out_config cfg),
                volume_percentage = volume_percentage (writtenAssist.audio_out_config cfg)\<rparr>,
             dialog_state_in = dialog_state_in1,
             device_config =
               \<lparr>DeviceConfig.device_id = SampleTextAssistant.device_id self,
                DeviceConfig.device_model_id = SampleTextAssistant.device_model_id self\<rparr>,
             text_query = text_query'\<rparr>;
          req = \<lparr>config = gConfig\<rparr>
      in [req])"

text \<open>
  The loop of \<^verbatim>\<open>assist\<close> over the response iterator. The assignment to
  \<^verbatim>\<open>self.conversation_state\<close> happens inside the loop, so it stays when a later step
  of the iterator raises; nothing in \<^verbatim>\<open>assist\<close> catches the exception.
\<close>

fun assist_loop ::
  "SampleTextAssistant \<Rightarrow> string option \<Rightarrow> response_stream \<Rightarrow>
     (exn + string option) \<times> SampleTextAssistant" where
  "assist_loop self display_text Done = (Inr display_text, self)"
| "assist_loop self display_text (Fail e) = (Inl e, self)"
| "assist_loop self display_text (Msg resp rest) =
     (let self1 =
            (if DialogStateOut.conversation_state (dialog_state_out resp) \<noteq> []
             then self\<lparr>SampleTextAssistant.conversation_state :=
                         Some (DialogStateOut.conversation_state (dialog_state_out resp))\<rparr>
             else self);
          display_text1 =
            (if supplemental_display_text (dialog_state_out resp) \<noteq> []
             then Some (supplemental_display_text (dialog_state_out resp))
             else display_text)
      in assist_loop self1 display_text1 rest)"

text \<open>
  \<^verbatim>\<open>assist\<close> makes one call of the stub with the requests of the generator and the
  deadline of the session, and runs the loop over what comes back. The calls of
  \<^verbatim>\<open>assistant_helpers\<close> in the source only write debug log records of the request and of
  each response; they are not part of the result, of the session or of the request.
\<close>

definition assist ::
  "writtenAssist \<Rightarrow> SampleTextAssistant \<Rightarrow> string \<Rightarrow> network \<Rightarrow>
     (exn + string option) \<times> SampleTextAssistant \<times> network" where
  "assist cfg self text_query' net =
     (let (resps, net1) =
            Assist (assistant self) (iter_assist_requests cfg self text_query') (deadline self) net;
          (result, self1) = assist_loop self None resps
      in (result, self1, net1))"

section \<open>The entry point: \<^verbatim>\<open>main\<close>\<close>

text \<open>
  The value of the option \<^verbatim>\<open>--input\<close>: its default \<^verbatim>\<open>False\<close>, or the text given.
  \<^verbatim>\<open>if input\<close> is false for \<^verbatim>\<open>False\<close> and for the empty string.
\<close>

datatype py_input = PyFalse | PyStr string

fun truthy_input :: "py_input \<Rightarrow> bool" where
  "truthy_input PyFalse = False"
| "truthy_input (PyStr t) = (t \<noteq> [])"

text \<open>
  \<^verbatim>\<open>main\<close> passes \<^verbatim>\<open>input\<close> itself to \<^verbatim>\<open>assist\<close>; the branch is taken only
  for a string.
\<close>

fun text_of_input :: "py_input \<Rightarrow> string" where
  "text_of_input PyFalse = []"
| "text_of_input (PyStr t) = t"

record arguments =
  api_endpoint :: string
  credentials :: string
  device_model_id :: string
  device_id :: string
  lang :: string
  verbose :: bool
  grpc_deadline :: int
  input :: py_input

text \<open>
  What the program does to the outside, in order: error log records, the creation of
  the channel, prompts and printed lines. \<open>ChannelClosed\<close> is the call of the channel's
  \<^verbatim>\<open>close\<close>. Calls of the service are recorded in the \<open>network\<close>.
\<close>

datatype event =
  LogError string
| ChannelCreated Channel
| ChannelClosed Channel
| Prompt string
| Echo string

text \<open>
  The libraries \<^verbatim>\<open>main\<close> calls while loading the credential: each step either raises
  or gives its value. \<open>stdin\<close> holds the answers \<^verbatim>\<open>click.prompt\<close> will return, in order;
  when they are used up (end of input, or the user interrupts) \<^verbatim>\<open>click.prompt\<close>
  raises \<open>Abort\<close>.
\<close>

record environment =
  open_file :: "string \<Rightarrow> exn + string"
  json_load :: "string \<Rightarrow> exn + (string \<times> string) list"
  Credentials_init :: "string option \<Rightarrow> (string \<times> string) list \<Rightarrow> exn + Credentials"
  refresh :: "Credentials \<Rightarrow> exn + Credentials"
  stdin :: "string list"

text \<open>
  The body of the \<^verbatim>\<open>try\<close> block of \<^verbatim>\<open>main\<close>: open the file, parse it, construct the
  credential with no access token, refresh it. The first step that raises ends the block.
\<close>

definition load_credentials :: "environment \<Rightarrow> string \<Rightarrow> exn + Credentials" where
  "load_credentials env path =
     (case open_file env path of
        Inl e \<Rightarrow> Inl e
      | Inr f \<Rightarrow>
          (case json_load env f of
             Inl e \<Rightarrow> Inl e
           | Inr kwargs \<Rightarrow>
               (case Credentials_init env None kwargs of
                  Inl e \<Rightarrow> Inl e
                | Inr c \<Rightarrow> refresh env c)))"

definition secure_authorized_channel :: "Credentials \<Rightarrow> string \<Rightarrow> Channel" where
  "secure_authorized_channel creds endpoint = \<lparr>Channel.credentials = creds, target = endpoint\<rparr>"

text \<open>\<^verbatim>\<open>'%s' % display_text\<close>: \<^verbatim>\<open>None\<close> is formatted as the word \<^verbatim>\<open>None\<close>.\<close>

fun format_s :: "string option \<Rightarrow> string" where
  "format_s None = ''None''"
| "format_s (Some t) = t"

datatype outcome = Returned | Raised exn

text \<open>The branch \<^verbatim>\<open>if input\<close> of the \<^verbatim>\<open>with\<close> body: one call, one printed line.\<close>

definition single_shot ::
  "writtenAssist \<Rightarrow> SampleTextAssistant \<Rightarrow> py_input \<Rightarrow> network \<Rightarrow>
     outcome \<times> event list \<times> SampleTextAssistant \<times> network" where
  "single_shot cfg assistant' input' net =
     (let text_query' = text_of_input input'
      in case assist cfg assistant' text_query' net of
           (Inl e, assistant1, net1) \<Rightarrow> (Raised e, [], assistant1, net1)
         | (Inr display_text, assistant1, net1) \<Rightarrow>
             (Returned, [Echo (format_s display_text)], assistant1, net1))"

text \<open>
  The branch \<^verbatim>\<open>while True\<close>: prompt, call, print, again. The loop has no exit of its
  own; it ends when \<^verbatim>\<open>click.prompt\<close> or \<^verbatim>\<open>assist\<close> raises, and each round consumes
  one answer of \<open>stdin\<close>.
\<close>

fun conversation ::
  "writtenAssist \<Rightarrow> SampleTextAssistant \<Rightarrow> string list \<Rightarrow> network \<Rightarrow>
     outcome \<times> event list \<times> SampleTextAssistant \<times> network" where
  "conversation cfg assistant' [] net =
     (Raised (Exn Abort []), [Prompt (promptIn cfg)], assistant', net)"
| "conversation cfg assistant' (text_query' # later) net =
     (case assist cfg assistant' text_query' net of
        (Inl e, assistant1, net1) \<Rightarrow> (Raised e, [Prompt (promptIn cfg)], assistant1, net1)
      | (Inr display_text, assistant1, net1) \<Rightarrow>
          (case conversation cfg assistant1 later net1 of
             (out, evs, assistant2, net2) \<Rightarrow>
               (out,
                Prompt (promptIn cfg) # Echo (promptOut cfg @ '' '' @ format_s display_text) # evs,
                assistant2, net2)))"

text \<open>
  The result of a run of \<^verbatim>\<open>main\<close>: how it ended, what it did, the session object if
  one was constructed (as it was at the end), and the calls the service saw. When the
  \<^verbatim>\<open>with\<close> body ends without an exception, the value of \<^verbatim>\<open>__exit__\<close> is not
  looked at; when it raises, the exception goes on unless \<^verbatim>\<open>__exit__\<close> returns a true
  value.
\<close>

record run =
  outcome :: outcome
  events :: "event list"
  session :: "SampleTextAssistant option"
  network :: network

definition main :: "writtenAssist \<Rightarrow> environment \<Rightarrow> network \<Rightarrow> arguments \<Rightarrow> run" where
  "main cfg env net args =
     (case load_credentials env (arguments.credentials args) of
        Inl e \<Rightarrow>
          if is_Exception e
          then \<lparr>outcome = Returned,
                events = [LogError (''Error loading credentials: '' @ msg e),
                          LogError ''Run google-oauthlib-tool to initialize new OAuth 2.0 credentials.''],
                session = None, network = net\<rparr>
          else \<lparr>outcome = Raised e, events = [], session = None, network = net\<rparr>
      | Inr creds \<Rightarrow>
          (let grpc_channel = secure_authorized_channel creds (api_endpoint args);
               assistant0 = SampleTextAssistant_enter
                 (SampleTextAssistant_init (lang args) (arguments.device_model_id args)
                    (arguments.device_id args) grpc_channel (grpc_deadline args));
               (out, evs, assistant1, net1) =
                 (if truthy_input (input args)
                  then single_shot cfg assistant0 (input args) net
                  else conversation cfg assistant0 (stdin env) net);
               out1 =
                 (case out of
                    Returned \<Rightarrow> Returned
                  | Raised e \<Rightarrow>
                      if suppresses (SampleTextAssistant_exit assistant1 (Some e))
                      then Returned else Raised e)
           in \<lparr>outcome = out1, events = ChannelCreated grpc_channel # evs,
                session = Some assistant1, network = net1\<rparr>))"

section \<open>Notions the properties are stated with\<close>

text \<open>
  The last non-empty value of a sequence of values, if there is one: what "last write
  wins" keeps of a field over the messages of an exchange.
\<close>

definition last_nonempty :: "'a list list \<Rightarrow> 'a list option" where
  "last_nonempty xs =
     (case filter (\<lambda>x. x \<noteq> []) xs of [] \<Rightarrow> None | y # ys \<Rightarrow> Some (last (y # ys)))"

definition states_of :: "AssistResponse list \<Rightarrow> bytes list" where
  "states_of msgs = map (\<lambda>m. DialogStateOut.conversation_state (dialog_state_out m)) msgs"

definition texts_of :: "AssistResponse list \<Rightarrow> string list" where
  "texts_of msgs = map (\<lambda>m. supplemental_display_text (dialog_state_out m)) msgs"

text \<open>
  Carry-forward: the state held after the messages \<open>msgs\<close> were received is the last
  non-empty state among them, and the state held before when there is none.
\<close>

definition carried :: "bytes option \<Rightarrow> AssistResponse list \<Rightarrow> bytes option" where
  "carried held msgs =
     (case last_nonempty (states_of msgs) of None \<Rightarrow> held | Some b \<Rightarrow> Some b)"

text \<open>The response stream the service delivers to the call \<open>assist cfg self q net\<close>.\<close>

definition delivered ::
  "writtenAssist \<Rightarrow> SampleTextAssistant \<Rightarrow> string \<Rightarrow> network \<Rightarrow> response_stream" where
  "delivered cfg self q net =
     service net (length (exchanges net)) (iter_assist_requests cfg self q) (deadline self)"

text \<open>
  A sequence of calls on one session, one after the other; as in the program, a call
  that raises ends the sequence.
\<close>

fun assist_calls ::
  "writtenAssist \<Rightarrow> SampleTextAssistant \<Rightarrow> string list \<Rightarrow> network \<Rightarrow>
     (exn + string option list) \<times> SampleTextAssistant \<times> network" where
  "assist_calls cfg self [] net = (Inr [], self, net)"
| "assist_calls cfg self (q # qs) net =
     (case assist cfg self q net of
        (Inl e, self1, net1) \<Rightarrow> (Inl e, self1, net1)
      | (Inr d, self1, net1) \<Rightarrow>
          (case assist_calls cfg self1 qs net1 of
             (Inl e, self2, net2) \<Rightarrow> (Inl e, self2, net2)
           | (Inr ds, self2, net2) \<Rightarrow> (Inr (d # ds), self2, net2)))"

text \<open>The messages received in the calls made between the network states \<open>net\<close> and \<open>net1\<close>.\<close>

definition received_since :: "network \<Rightarrow> network \<Rightarrow> AssistResponse list" where
  "received_since net net1 =
     concat (map (\<lambda>x. received (replies x)) (drop (length (exchanges net)) (exchanges net1)))"

text \<open>
  The session \<^verbatim>\<open>main\<close> constructs from its arguments once the credential \<open>creds\<close> is
  loaded.
\<close>

definition session0 :: "Credentials \<Rightarrow> arguments \<Rightarrow> SampleTextAssistant" where
  "session0 creds args =
     SampleTextAssistant_init (lang args) (arguments.device_model_id args)
       (arguments.device_id args) (secure_authorized_channel creds (api_endpoint args))
       (grpc_deadline args)"

text \<open>What a run did, read off its events: channels created, channels closed, prompts shown.\<close>

fun channels_created :: "event list \<Rightarrow> Channel list" where
  "channels_created [] = []"
| "channels_created (ChannelCreated c # evs) = c # channels_created evs"
| "channels_created (ev # evs) = channels_created evs"

fun channels_closed :: "event list \<Rightarrow> Channel list" where
  "channels_closed [] = []"
| "channels_closed (ChannelClosed c # evs) = c # channels_closed evs"
| "channels_closed (ev # evs) = channels_closed evs"

fun prompts :: "event list \<Rightarrow> string list" where
  "prompts [] = []"
| "prompts (Prompt p # evs) = p # prompts evs"
| "prompts (ev # evs) = prompts evs"

text \<open>
  The calls the service saw between the network states \<open>net\<close> and \<open>net1\<close>, in order.
  A call completes when its response stream ends without raising; it has no display text
  when no message of it carries one. \<open>echoes\<close> are the lines a run printed, in order.
\<close>

definition calls_since :: "network \<Rightarrow> network \<Rightarrow> exchange list" where
  "calls_since net net1 = drop (length (exchanges net)) (exchanges net1)"

definition completes :: "exchange \<Rightarrow> bool" where
  "completes x = (ending (replies x) = None)"

definition no_display_text :: "exchange \<Rightarrow> bool" where
  "no_display_text x =
     list_all (\<lambda>m. supplemental_display_text (dialog_state_out m) = []) (received (replies x))"

fun echoes :: "event list \<Rightarrow> string list" where
  "echoes [] = []"
| "echoes (Echo l # evs) = l # echoes evs"
| "echoes (ev # evs) = echoes evs"

subsection \<open>Concrete values for the examples\<close>

definition cfg0 :: writtenAssist where
  "cfg0 = \<lparr>writtenAssist.audio_out_config =
             \<lparr>encoding = ''LINEAR16'', sample_rate_hertz = 16000, volume_percentage = 100\<rparr>,
           promptIn = ''<you>'', promptOut = ''<@assistant>''\<rparr>"

definition creds0 :: Credentials where
  "creds0 = \<lparr>token = Some ''ya29'', info = [(''refresh_token'', ''r1'')]\<rparr>"

definition self0 :: SampleTextAssistant where
  "self0 = SampleTextAssistant_init ''en-US'' ''model-1'' ''device-1''
             (secure_authorized_channel creds0 ''embeddedassistant.googleapis.com'') 185"

definition resp :: "bytes \<Rightarrow> string \<Rightarrow> AssistResponse" where
  "resp s t = \<lparr>dialog_state_out =
                 \<lparr>DialogStateOut.conversation_state = s, supplemental_display_text = t\<rparr>\<rparr>"

text \<open>A stub service that answers its calls from a script, in order.\<close>

definition scripted :: "response_stream list \<Rightarrow> network" where
  "scripted rss =
     \<lparr>service = (\<lambda>k reqs d. if k < length rss then rss ! k
                              else Fail (Exn RpcError ''UNAVAILABLE'')),
      exchanges = []\<rparr>"

definition S1 :: bytes where "S1 = [0x53, 0x31]"

definition S2 :: bytes where "S2 = [0x53, 0x32]"

text \<open>
  An environment in which the credential file \<^verbatim>\<open>credentials.json\<close> exists, parses and
  refreshes, and nothing is typed; and the arguments of a single-shot run.
\<close>

definition env0 :: environment where
  "env0 = \<lparr>open_file = (\<lambda>p. if p = ''credentials.json'' then Inr ''{...}''
                            else Inl (Exn OSError ''No such file or directory'')),
           json_load = (\<lambda>s. Inr [(''refresh_token'', ''r1'')]),
           Credentials_init = (\<lambda>t kw. Inr \<lparr>token = t, info = kw\<rparr>),
           refresh = (\<lambda>c. Inr (c\<lparr>token := Some ''ya29''\<rparr>)),
           stdin = []\<rparr>"

definition args0 :: arguments where
  "args0 = \<lparr>api_endpoint = ''embeddedassistant.googleapis.com'',
            arguments.credentials = ''credentials.json'',
            arguments.device_model_id = ''model-1'',
            arguments.device_id = ''device-1'',
            lang = ''en-US'', verbose = False, grpc_deadline = 185,
            input = PyStr ''hello''\<rparr>"

section \<open>Auxiliary facts\<close>

lemma last_nonempty_Nil: "last_nonempty [] = None"
  by (simp add: last_nonempty_def)

lemma last_nonempty_Cons:
  "last_nonempty (x # xs) =
     (case last_nonempty xs of None \<Rightarrow> (if x \<noteq> [] then Some x else None) | Some y \<Rightarrow> Some y)"
  by (simp add: last_nonempty_def split: list.splits)

text \<open>
  What the loop of \<^verbatim>\<open>assist\<close> returns and what it leaves in the session, for any
  stream, by induction on the stream.
\<close>

lemma assist_loop_fst:
  "fst (assist_loop self d rs) =
     (case ending rs of
        None \<Rightarrow> Inr (case last_nonempty (texts_of (received rs)) of None \<Rightarrow> d | Some t \<Rightarrow> Some t)
      | Some e \<Rightarrow> Inl e)"
proof (induction rs arbitrary: self d)
  case Done
  show ?case by (simp add: texts_of_def last_nonempty_Nil)
next
  case (Fail e)
  show ?case by simp
next
  case (Msg resp rest)
  show ?case
    by (simp add: Msg.IH Let_def texts_of_def last_nonempty_Cons split: option.splits)
qed

lemma assist_loop_snd:
  "snd (assist_loop self d rs) =
     self\<lparr>SampleTextAssistant.conversation_state :=
            carried (SampleTextAssistant.conversation_state self) (received rs)\<rparr>"
proof (induction rs arbitrary: self d)
  case Done
  show ?case by (simp add: carried_def states_of_def last_nonempty_Nil)
next
  case (Fail e)
  show ?case by (simp add: carried_def states_of_def last_nonempty_Nil)
next
  case (Msg resp rest)
  show ?case
    by (simp add: Msg.IH Let_def carried_def states_of_def last_nonempty_Cons split: option.splits)
qed

lemma assist_fst:
  "fst (assist cfg self q net) = fst (assist_loop self None (delivered cfg self q net))"
  by (simp add: assist_def Assist_def delivered_def Let_def split: prod.splits)

lemma assist_session:
  "fst (snd (assist cfg self q net)) = snd (assist_loop self None (delivered cfg self q net))"
  by (simp add: assist_def Assist_def delivered_def Let_def split: prod.splits)

lemma assist_network:
  "snd (snd (assist cfg self q net)) =
     net\<lparr>exchanges := exchanges net @
       [\<lparr>via = channel (assistant self), sent = iter_assist_requests cfg self q,
         within = deadline self, replies = delivered cfg self q net\<rparr>]\<rparr>"
  by (simp add: assist_def Assist_def delivered_def Let_def split: prod.splits)

lemma delivered_scripted_0: "delivered cfg self q (scripted (rs # rss)) = rs"
  by (simp add: delivered_def scripted_def)

lemma last_nonempty_append:
  "last_nonempty (xs @ ys) =
     (case last_nonempty ys of None \<Rightarrow> last_nonempty xs | Some y \<Rightarrow> Some y)"
  by (induction xs) (simp_all add: last_nonempty_Nil last_nonempty_Cons split: option.splits)

lemma last_nonempty_None: "(last_nonempty xs = None) = (\<forall>x\<in>set xs. x = [])"
proof -
  have "(last_nonempty xs = None) = (filter (\<lambda>x. x \<noteq> []) xs = [])"
    by (simp add: last_nonempty_def split: list.splits)
  then show ?thesis by (simp add: filter_empty_conv)
qed

lemma carried_append: "carried (carried held xs) ys = carried held (xs @ ys)"
  by (simp add: carried_def states_of_def last_nonempty_append split: option.splits)

lemma carried_Nil: "carried held [] = held"
  by (simp add: carried_def states_of_def last_nonempty_Nil)

lemma carried_no_state:
  "\<forall>m\<in>set msgs. DialogStateOut.conversation_state (dialog_state_out m) = [] \<Longrightarrow>
     carried held msgs = held"
  using last_nonempty_None [of "states_of msgs"]
  by (simp add: carried_def states_of_def)

text \<open>
  A sequence of calls extends the record of exchanges by the calls it made, and the state
  it leaves is carried forward over the messages of those calls.
\<close>

lemma assist_calls_log:
  "\<exists>new. exchanges (snd (snd (assist_calls cfg self qs net))) = exchanges net @ new
     \<and> SampleTextAssistant.conversation_state (fst (snd (assist_calls cfg self qs net))) =
         carried (SampleTextAssistant.conversation_state self)
           (concat (map (\<lambda>x. received (replies x)) new))
     \<and> (\<forall>ds. fst (assist_calls cfg self qs net) = Inr ds \<longrightarrow>
           length new = length qs \<and> length ds = length qs)"
proof (induction qs arbitrary: self net)
  case Nil
  show ?case by (simp add: carried_Nil)
next
  case (Cons q qs)
  obtain r self1 net1 where a: "assist cfg self q net = (r, self1, net1)"
    by (cases "assist cfg self q net") auto
  have s1: "SampleTextAssistant.conversation_state self1 =
      carried (SampleTextAssistant.conversation_state self) (received (delivered cfg self q net))"
    using assist_session [of cfg self q net] a by (simp add: assist_loop_snd)
  have n1: "exchanges net1 = exchanges net @
       [\<lparr>via = channel (assistant self), sent = iter_assist_requests cfg self q,
         within = deadline self, replies = delivered cfg self q net\<rparr>]"
    using assist_network [of cfg self q net] a by simp
  show ?case
  proof (cases r)
    case (Inl e)
    with a s1 n1 show ?thesis by simp
  next
    case (Inr d)
    obtain new where
      new: "exchanges (snd (snd (assist_calls cfg self1 qs net1))) = exchanges net1 @ new"
        "SampleTextAssistant.conversation_state (fst (snd (assist_calls cfg self1 qs net1))) =
           carried (SampleTextAssistant.conversation_state self1)
             (concat (map (\<lambda>x. received (replies x)) new))"
        "\<forall>ds. fst (assist_calls cfg self1 qs net1) = Inr ds \<longrightarrow>
           length new = length qs \<and> length ds = length qs"
      using Cons.IH [of self1 net1] by blast
    obtain r2 self2 net2 where c: "assist_calls cfg self1 qs net1 = (r2, self2, net2)"
      by (cases "assist_calls cfg self1 qs net1") auto
    let ?x = "\<lparr>via = channel (assistant self), sent = iter_assist_requests cfg self q,
         within = deadline self, replies = delivered cfg self q net\<rparr>"
    have "exchanges (snd (snd (assist_calls cfg self (q # qs) net))) = exchanges net @ (?x # new)"
      using a Inr c new(1) n1 by (simp split: sum.splits)
    moreover have "SampleTextAssistant.conversation_state (fst (snd (assist_calls cfg self (q # qs) net))) =
         carried (SampleTextAssistant.conversation_state self)
           (concat (map (\<lambda>x. received (replies x)) (?x # new)))"
      using a Inr c new(2) s1 by (simp add: carried_append split: sum.splits)
    moreover have "\<forall>ds. fst (assist_calls cfg self (q # qs) net) = Inr ds \<longrightarrow>
           length (?x # new) = length (q # qs) \<and> length ds = length (q # qs)"
      using a Inr c new(3) by (auto split: sum.splits)
    ultimately show ?thesis by blast
  qed
qed

lemma assist_eval:
  "assist cfg self q net =
     (fst (assist_loop self None (delivered cfg self q net)),
      snd (assist_loop self None (delivered cfg self q net)),
      net\<lparr>exchanges := exchanges net @
        [\<lparr>via = channel (assistant self), sent = iter_assist_requests cfg self q,
          within = deadline self, replies = delivered cfg self q net\<rparr>]\<rparr>)"
  using assist_fst [of cfg self q net] assist_session [of cfg self q net]
    assist_network [of cfg self q net]
  by (cases "assist cfg self q net") simp

subsection \<open>Facts about \<^verbatim>\<open>main\<close>\<close>

lemma load_env0: "load_credentials env0 ''credentials.json'' = Inr creds0"
  by (simp add: load_credentials_def env0_def creds0_def)

lemma session0_args0: "session0 creds0 (args0\<lparr>input := i\<rparr>) = self0"
  by (simp add: session0_def self0_def args0_def)

lemma exit_never_suppresses: "\<not> suppresses (SampleTextAssistant_exit self e)"
  by (simp add: suppresses_def SampleTextAssistant_exit_def)

lemma main_loaded:
  assumes "load_credentials env (arguments.credentials args) = Inr creds"
  shows "main cfg env net args =
     (case (if truthy_input (input args)
            then single_shot cfg (session0 creds args) (input args) net
            else conversation cfg (session0 creds args) (stdin env) net) of
        (out, evs, a1, net1) \<Rightarrow>
          \<lparr>outcome = out,
           events = ChannelCreated (secure_authorized_channel creds (api_endpoint args)) # evs,
           session = Some a1, network = net1\<rparr>)"
  using assms
  by (simp add: main_def Let_def session0_def SampleTextAssistant_enter_def
      exit_never_suppresses split: prod.splits outcome.splits)

lemma main_failed:
  assumes "load_credentials env (arguments.credentials args) = Inl e"
  shows "main cfg env net args =
     (if is_Exception e
      then \<lparr>outcome = Returned,
            events = [LogError (''Error loading credentials: '' @ msg e),
                      LogError ''Run google-oauthlib-tool to initialize new OAuth 2.0 credentials.''],
            session = None, network = net\<rparr>
      else \<lparr>outcome = Raised e, events = [], session = None, network = net\<rparr>)"
  using assms by (simp add: main_def)

lemma single_shot_eval:
  "single_shot cfg self (PyStr t) net =
     (case fst (assist cfg self t net) of
        Inl e \<Rightarrow> (Raised e, [], fst (snd (assist cfg self t net)), snd (snd (assist cfg self t net)))
      | Inr d \<Rightarrow> (Returned, [Echo (format_s d)], fst (snd (assist cfg self t net)),
                  snd (snd (assist cfg self t net))))"
  by (cases "assist cfg self t net") (simp add: single_shot_def split: sum.splits)

lemma assist_assistant: "assistant (fst (snd (assist cfg self q net))) = assistant self"
  by (simp add: assist_session assist_loop_snd)

lemma assist_no_text:
  assumes "ending (delivered cfg self q net) = None"
    and "\<forall>m\<in>set (received (delivered cfg self q net)).
           supplemental_display_text (dialog_state_out m) = []"
  shows "fst (assist cfg self q net) = Inr None"
proof -
  have "last_nonempty (texts_of (received (delivered cfg self q net))) = None"
    using assms(2) by (simp add: last_nonempty_None texts_of_def)
  with assms(1) show ?thesis
    by (simp add: assist_fst assist_loop_fst)
qed


lemma main_single_shot_eval:
  "main cfg0 env0 (scripted (rs # rss)) args0 =
     (case fst (assist_loop self0 None rs) of
        Inl e \<Rightarrow> \<lparr>outcome = Raised e,
                  events = [ChannelCreated (secure_authorized_channel creds0 ''embeddedassistant.googleapis.com'')],
                  session = Some (snd (assist_loop self0 None rs)),
                  network = snd (snd (assist cfg0 self0 ''hello'' (scripted (rs # rss))))\<rparr>
      | Inr d \<Rightarrow> \<lparr>outcome = Returned,
                  events = [ChannelCreated (secure_authorized_channel creds0 ''embeddedassistant.googleapis.com''),
                            Echo (format_s d)],
                  session = Some (snd (assist_loop self0 None rs)),
                  network = snd (snd (assist cfg0 self0 ''hello'' (scripted (rs # rss))))\<rparr>)"
proof -
  have l: "load_credentials env0 (arguments.credentials args0) = Inr creds0"
    by (simp add: args0_def load_env0)
  have s: "session0 creds0 args0 = self0"
    using session0_args0 [of "PyStr ''hello''"] by (simp add: args0_def)
  have i: "input args0 = PyStr ''hello''" "api_endpoint args0 = ''embeddedassistant.googleapis.com''"
    by (simp_all add: args0_def)
  show ?thesis
    by (simp add: main_loaded [OF l] s i single_shot_eval assist_fst assist_session
        delivered_scripted_0 split: sum.splits)
qed

lemma load_credentials_Inl:
  assumes "open_file env p = Inl e
         \<or> (\<exists>f. open_file env p = Inr f \<and> json_load env f = Inl e)
         \<or> (\<exists>f kw. open_file env p = Inr f \<and> json_load env f = Inr kw
               \<and> Credentials_init env None kw = Inl e)
         \<or> (\<exists>f kw c. open_file env p = Inr f \<and> json_load env f = Inr kw
               \<and> Credentials_init env None kw = Inr c \<and> refresh env c = Inl e)"
  shows "load_credentials env p = Inl e"
  using assms by (auto simp: load_credentials_def)

lemma assist_sent_text:
  "map (\<lambda>r. text_query (config r)) (iter_assist_requests cfg self t) = [t]"
  by (simp add: iter_assist_requests_def Let_def)

text \<open>
  The loop of the interactive mode shows at least one prompt, creates and closes no
  channel, and makes all its calls through the channel of the session's stub; by induction
  on the answers typed.
\<close>

lemma conversation_trace:
  "channels_created (fst (snd (conversation cfg self ls net))) = []
   \<and> channels_closed (fst (snd (conversation cfg self ls net))) = []
   \<and> prompts (fst (snd (conversation cfg self ls net))) \<noteq> []
   \<and> (\<exists>new. exchanges (snd (snd (snd (conversation cfg self ls net)))) = exchanges net @ new
         \<and> (\<forall>x\<in>set new. via x = channel (assistant self)))"
proof (induction ls arbitrary: self net)
  case Nil
  show ?case by simp
next
  case (Cons q later)
  obtain r self1 net1 where a: "assist cfg self q net = (r, self1, net1)"
    by (cases "assist cfg self q net") auto
  have s1: "assistant self1 = assistant self"
    using assist_assistant [of cfg self q net] a by simp
  have n1: "exchanges net1 = exchanges net @
       [\<lparr>via = channel (assistant self), sent = iter_assist_requests cfg self q,
         within = deadline self, replies = delivered cfg self q net\<rparr>]"
    using assist_network [of cfg self q net] a by simp
  show ?case
  proof (cases r)
    case (Inl e)
    with a n1 show ?thesis by simp
  next
    case (Inr d)
    obtain out evs self2 net2 where c: "conversation cfg self1 later net1 = (out, evs, self2, net2)"
      by (cases "conversation cfg self1 later net1") auto
    obtain new where new: "exchanges net2 = exchanges net1 @ new"
        "\<forall>x\<in>set new. via x = channel (assistant self1)"
      using Cons.IH [of self1 net1] c by auto
    have ev: "channels_created evs = []" "channels_closed evs = []"
      using Cons.IH [of self1 net1] c by simp_all
    have "exchanges net2 = exchanges net @
        (\<lparr>via = channel (assistant self), sent = iter_assist_requests cfg self q,
          within = deadline self, replies = delivered cfg self q net\<rparr> # new)"
      using new(1) n1 by simp
    moreover have "\<forall>x\<in>set (\<lparr>via = channel (assistant self), sent = iter_assist_requests cfg self q,
          within = deadline self, replies = delivered cfg self q net\<rparr> # new).
        via x = channel (assistant self)"
      using new(2) s1 by simp
    ultimately have "\<exists>new'. exchanges net2 = exchanges net @ new'
        \<and> (\<forall>x\<in>set new'. via x = channel (assistant self))"
      by blast
    then show ?thesis
      using a Inr c ev by simp
  qed
qed

lemma single_shot_trace:
  "channels_created (fst (snd (single_shot cfg self (PyStr t) net))) = []
   \<and> channels_closed (fst (snd (single_shot cfg self (PyStr t) net))) = []
   \<and> prompts (fst (snd (single_shot cfg self (PyStr t) net))) = []
   \<and> exchanges (snd (snd (snd (single_shot cfg self (PyStr t) net)))) =
       exchanges net @
         [\<lparr>via = channel (assistant self), sent = iter_assist_requests cfg self t,
           within = deadline self, replies = delivered cfg self t net\<rparr>]"
  by (simp add: single_shot_eval assist_network split: sum.splits)

lemma session0_channel:
  "channel (assistant (session0 creds args)) = secure_authorized_channel creds (api_endpoint args)"
  by (simp add: session0_def SampleTextAssistant_init_def)

lemma truthy_input_iff: "truthy_input i = (\<exists>t. i = PyStr t \<and> t \<noteq> [])"
  by (cases i) simp_all

lemma main_loaded_trace:
  assumes "load_credentials env (arguments.credentials args) = Inr creds"
  shows "channels_closed (events (main cfg env net args)) = []
       \<and> channels_created (events (main cfg env net args)) =
           [secure_authorized_channel creds (api_endpoint args)]
       \<and> (prompts (events (main cfg env net args)) = []) = truthy_input (input args)
       \<and> (\<exists>new. exchanges (network (main cfg env net args)) = exchanges net @ new
             \<and> (\<forall>x\<in>set new. via x = secure_authorized_channel creds (api_endpoint args)))"
proof (cases "truthy_input (input args)")
  case True
  then obtain t where t: "input args = PyStr t"
    by (auto simp: truthy_input_iff)
  show ?thesis
    using True t single_shot_trace [of cfg "session0 creds args" t net]
    by (simp add: main_loaded [OF assms] case_prod_beta session0_channel)
next
  case False
  show ?thesis
    using False conversation_trace [of cfg "session0 creds args" "stdin env" net]
    by (simp add: main_loaded [OF assms] case_prod_beta session0_channel)
qed

lemma main_two_turns_eval:
  "outcome (main cfg0 (env0\<lparr>stdin := [''hello'', ''bye'']\<rparr>)
      (scripted [Msg (resp S1 ''Hi!'') Done, Msg (resp S2 ''Goodbye!'') Done])
      (args0\<lparr>input := PyFalse\<rparr>)) = Raised (Exn Abort [])
   \<and> events (main cfg0 (env0\<lparr>stdin := [''hello'', ''bye'']\<rparr>)
      (scripted [Msg (resp S1 ''Hi!'') Done, Msg (resp S2 ''Goodbye!'') Done])
      (args0\<lparr>input := PyFalse\<rparr>)) =
       [ChannelCreated (secure_authorized_channel creds0 ''embeddedassistant.googleapis.com''),
        Prompt ''<you>'', Echo ''<@assistant> Hi!'',
        Prompt ''<you>'', Echo ''<@assistant> Goodbye!'',
        Prompt ''<you>'']
   \<and> length (exchanges (network (main cfg0 (env0\<lparr>stdin := [''hello'', ''bye'']\<rparr>)
      (scripted [Msg (resp S1 ''Hi!'') Done, Msg (resp S2 ''Goodbye!'') Done])
      (args0\<lparr>input := PyFalse\<rparr>)))) = 2"
proof -
  have l: "load_credentials (env0\<lparr>stdin := [''hello'', ''bye'']\<rparr>)
      (arguments.credentials (args0\<lparr>input := PyFalse\<rparr>)) = Inr creds0"
    by (simp add: load_credentials_def env0_def args0_def creds0_def)
  have i: "api_endpoint (args0\<lparr>input := PyFalse\<rparr>) = ''embeddedassistant.googleapis.com''"
    by (simp add: args0_def)
  show ?thesis
    by (simp add: main_loaded [OF l] session0_args0 i assist_eval delivered_def scripted_def
        resp_def cfg0_def)
qed

text \<open>
  The lines of the interactive mode, call by call: whenever the call number \<open>i\<close> of the
  loop completes, the line number \<open>i\<close> printed is the output label, a space and the
  formatted reply of that call. By induction on the answers typed, for any session and
  network the loop starts from.
\<close>

lemma assist_result:
  "fst (assist cfg self q net) =
     (case ending (delivered cfg self q net) of
        None \<Rightarrow> Inr (last_nonempty (texts_of (received (delivered cfg self q net))))
      | Some e \<Rightarrow> Inl e)"
  by (simp add: assist_fst assist_loop_fst split: option.splits)

lemma no_display_text_reply:
  assumes "no_display_text x"
  shows "last_nonempty (texts_of (received (replies x))) = None"
  using assms by (simp add: no_display_text_def last_nonempty_None texts_of_def list_all_iff)

lemma conversation_echoes:
  "\<forall>i. i < length (calls_since net (snd (snd (snd (conversation cfg self ls net)))))
      \<longrightarrow> completes (calls_since net (snd (snd (snd (conversation cfg self ls net)))) ! i)
      \<longrightarrow> i < length (echoes (fst (snd (conversation cfg self ls net))))
        \<and> echoes (fst (snd (conversation cfg self ls net))) ! i =
            promptOut cfg @ '' '' @
              format_s (last_nonempty (texts_of (received (replies
                (calls_since net (snd (snd (snd (conversation cfg self ls net)))) ! i)))))"
proof (induction ls arbitrary: self net)
  case Nil
  show ?case by (simp add: calls_since_def)
next
  case (Cons q later)
  let ?x = "\<lparr>via = channel (assistant self), sent = iter_assist_requests cfg self q,
         within = deadline self, replies = delivered cfg self q net\<rparr>"
  obtain r self1 net1 where a: "assist cfg self q net = (r, self1, net1)"
    by (cases "assist cfg self q net") auto
  have n1: "exchanges net1 = exchanges net @ [?x]"
    using assist_network [of cfg self q net] a by simp
  have res: "r = (case ending (delivered cfg self q net) of
        None \<Rightarrow> Inr (last_nonempty (texts_of (received (delivered cfg self q net))))
      | Some e \<Rightarrow> Inl e)"
    using assist_result [of cfg self q net] a by simp
  show ?case
  proof (cases r)
    case (Inl e)
    have "\<not> completes ?x"
      using res Inl by (simp add: completes_def split: option.splits)
    then show ?thesis
      using a Inl n1 by (simp add: calls_since_def)
  next
    case (Inr d)
    have d: "d = last_nonempty (texts_of (received (replies ?x)))"
      using res Inr by (simp split: option.splits)
    obtain out evs self2 net2 where c: "conversation cfg self1 later net1 = (out, evs, self2, net2)"
      by (cases "conversation cfg self1 later net1") auto
    obtain new where new: "exchanges net2 = exchanges net1 @ new"
      using conversation_trace [of cfg self1 later net1] c by auto
    have cs1: "calls_since net1 net2 = new"
      by (simp add: calls_since_def new)
    have cs: "calls_since net net2 = ?x # new"
      by (simp add: calls_since_def new n1)
    have ih: "\<forall>i. i < length new \<longrightarrow> completes (new ! i) \<longrightarrow>
        i < length (echoes evs)
        \<and> echoes evs ! i =
            promptOut cfg @ '' '' @ format_s (last_nonempty (texts_of (received (replies (new ! i)))))"
      using Cons.IH [of net1 self1] c cs1 by simp
    have run: "conversation cfg self (q # later) net =
        (out, Prompt (promptIn cfg) # Echo (promptOut cfg @ '' '' @ format_s d) # evs, self2, net2)"
      using a Inr c by simp
    have "\<forall>i. i < length (?x # new) \<longrightarrow> completes ((?x # new) ! i) \<longrightarrow>
        i < length (echoes (Prompt (promptIn cfg) # Echo (promptOut cfg @ '' '' @ format_s d) # evs))
        \<and> echoes (Prompt (promptIn cfg) # Echo (promptOut cfg @ '' '' @ format_s d) # evs) ! i =
            promptOut cfg @ '' '' @
              format_s (last_nonempty (texts_of (received (replies ((?x # new) ! i)))))"
    proof (intro allI impI)
      fix i
      assume i: "i < length (?x # new)" and co: "completes ((?x # new) ! i)"
      show "i < length (echoes (Prompt (promptIn cfg) # Echo (promptOut cfg @ '' '' @ format_s d) # evs))
        \<and> echoes (Prompt (promptIn cfg) # Echo (promptOut cfg @ '' '' @ format_s d) # evs) ! i =
            promptOut cfg @ '' '' @
              format_s (last_nonempty (texts_of (received (replies ((?x # new) ! i)))))"
      proof (cases i)
        case 0
        then show ?thesis using d by simp
      next
        case (Suc j)
        then show ?thesis using i co ih by simp
      qed
    qed
    then show ?thesis
      by (simp only: run cs fst_conv snd_conv)
  qed
qed


lemma main_interactive_echoes:
  assumes "load_credentials env (arguments.credentials args) = Inr creds"
    and "\<not> truthy_input (input args)"
    and "i < length (calls_since net (network (main cfg env net args)))"
    and "completes (calls_since net (network (main cfg env net args)) ! i)"
  shows "i < length (echoes (events (main cfg env net args)))
       \<and> echoes (events (main cfg env net args)) ! i =
           promptOut cfg @ '' '' @
             format_s (last_nonempty (texts_of (received (replies
               (calls_since net (network (main cfg env net args)) ! i)))))"
proof -
  let ?c = "conversation cfg (session0 creds args) (stdin env) net"
  have n: "network (main cfg env net args) = snd (snd (snd ?c))"
    using assms(2) by (simp add: main_loaded [OF assms(1)] case_prod_beta)
  have e: "echoes (events (main cfg env net args)) = echoes (fst (snd ?c))"
    using assms(2) by (simp add: main_loaded [OF assms(1)] case_prod_beta)
  show ?thesis
    using conversation_echoes [of net cfg "session0 creds args" "stdin env"] assms(3,4)
    unfolding n e by blast
qed

lemma main_single_shot_call:
  assumes "load_credentials env (arguments.credentials args) = Inr creds"
    and "truthy_input (input args)"
  shows "\<exists>x. calls_since net (network (main cfg env net args)) = [x]
       \<and> (completes x \<longrightarrow> no_display_text x \<longrightarrow>
            outcome (main cfg env net args) = Returned
          \<and> events (main cfg env net args) =
              [ChannelCreated (secure_authorized_channel creds (api_endpoint args)),
               Echo ''None''])"
proof -
  obtain t where t: "input args = PyStr t"
    using assms(2) by (auto simp: truthy_input_iff)
  let ?x = "\<lparr>via = channel (assistant (session0 creds args)),
      sent = iter_assist_requests cfg (session0 creds args) t,
      within = deadline (session0 creds args),
      replies = delivered cfg (session0 creds args) t net\<rparr>"
  have c: "calls_since net (network (main cfg env net args)) = [?x]"
    using assms(2) t
    by (simp add: main_loaded [OF assms(1)] single_shot_eval assist_network case_prod_beta
        calls_since_def split: sum.splits)
  have p: "completes ?x \<longrightarrow> no_display_text ?x \<longrightarrow>
            outcome (main cfg env net args) = Returned
          \<and> events (main cfg env net args) =
              [ChannelCreated (secure_authorized_channel creds (api_endpoint args)),
               Echo ''None'']"
  proof (intro impI)
    assume co: "completes ?x" and nd: "no_display_text ?x"
    have "fst (assist cfg (session0 creds args) t net) = Inr None"
      using co no_display_text_reply [OF nd]
      by (simp add: assist_result completes_def)
    then show "outcome (main cfg env net args) = Returned
          \<and> events (main cfg env net args) =
              [ChannelCreated (secure_authorized_channel creds (api_endpoint args)),
               Echo ''None'']"
      using assms(2) t
      by (simp add: main_loaded [OF assms(1)] single_shot_eval case_prod_beta)
  qed
  from c p show ?thesis by blast
qed

lemma main_second_turn_silent_eval:
  "map replies (calls_since (scripted [Msg (resp S1 ''Hi!'') Done, Msg (resp S2 []) Done])
      (network (main cfg0 (env0\<lparr>stdin := [''hello'', ''bye'']\<rparr>)
        (scripted [Msg (resp S1 ''Hi!'') Done, Msg (resp S2 []) Done])
        (args0\<lparr>input := PyFalse\<rparr>)))) =
     [Msg (resp S1 ''Hi!'') Done, Msg (resp S2 []) Done]"
proof -
  have l: "load_credentials (env0\<lparr>stdin := [''hello'', ''bye'']\<rparr>)
      (arguments.credentials (args0\<lparr>input := PyFalse\<rparr>)) = Inr creds0"
    by (simp add: load_credentials_def env0_def args0_def creds0_def)
  show ?thesis
    by (simp add: main_loaded [OF l] session0_args0 assist_eval delivered_def scripted_def
        calls_since_def)
qed

lemma main_single_shot_silent_eval:
  "map replies (calls_since (scripted [Msg (resp S1 []) Done])
      (network (main cfg0 env0 (scripted [Msg (resp S1 []) Done]) args0))) =
     [Msg (resp S1 []) Done]"
proof -
  have x: "exchanges (scripted [Msg (resp S1 []) Done]) = []"
    by (simp add: scripted_def)
  show ?thesis
    by (simp add: main_single_shot_eval assist_network delivered_scripted_0 calls_since_def x
        split: sum.splits)
qed

section \<open>Properties of \<^verbatim>\<open>assist\<close>\<close>

text \<open>
  Claim C1. When the exchange of a call delivers its messages and completes, \<open>assist\<close>
  returns the last non-empty display text among all the messages, and \<open>None\<close> when no
  message carried one. The reply is read from the display-text fields alone and the held
  state from the conversation-state fields alone: each is the last non-empty value of its
  own field.
\<close>

theorem assist_returns_last_display_text:
  assumes "ending (delivered cfg self q net) = None"
  shows "fst (assist cfg self q net) =
           Inr (last_nonempty (texts_of (received (delivered cfg self q net))))
       \<and> SampleTextAssistant.conversation_state (fst (snd (assist cfg self q net))) =
           carried (SampleTextAssistant.conversation_state self)
             (received (delivered cfg self q net))"
  using assms
  by (simp add: assist_fst assist_session assist_loop_fst assist_loop_snd split: option.splits)

text \<open>
  An exchange of four messages: a state, then a text, then another state, then an empty
  message. The reply is the text of the second message and the held state is the state of
  the third.
\<close>

theorem assist_returns_last_display_text_witness:
  "ending (delivered cfg0 self0 ''hello''
      (scripted [Msg (resp S1 []) (Msg (resp [] ''Hi'') (Msg (resp S2 []) (Msg (resp [] []) Done)))])) = None
   \<and> fst (assist cfg0 self0 ''hello''
      (scripted [Msg (resp S1 []) (Msg (resp [] ''Hi'') (Msg (resp S2 []) (Msg (resp [] []) Done)))])) =
       Inr (Some ''Hi'')
   \<and> SampleTextAssistant.conversation_state (fst (snd (assist cfg0 self0 ''hello''
      (scripted [Msg (resp S1 []) (Msg (resp [] ''Hi'') (Msg (resp S2 []) (Msg (resp [] []) Done)))])))) =
       Some S2"
  using assist_returns_last_display_text [of cfg0 self0 "''hello''"
      "scripted [Msg (resp S1 []) (Msg (resp [] ''Hi'') (Msg (resp S2 []) (Msg (resp [] []) Done)))]"]
  by (simp add: delivered_scripted_0 texts_of_def states_of_def carried_def last_nonempty_def
      resp_def self0_def SampleTextAssistant_init_def S1_def S2_def)

text \<open>
  Claim C9. A call of \<open>assist\<close> changes no field of the session but the held conversation
  state: the language code, the device model id, the device id, the stub with its channel
  and the deadline are after the call what they were before it. This holds for every call,
  the successful ones among them.
\<close>

theorem assist_changes_only_conversation_state:
  "SampleTextAssistant.language_code (fst (snd (assist cfg self q net))) =
     SampleTextAssistant.language_code self
   \<and> SampleTextAssistant.device_model_id (fst (snd (assist cfg self q net))) =
     SampleTextAssistant.device_model_id self
   \<and> SampleTextAssistant.device_id (fst (snd (assist cfg self q net))) =
     SampleTextAssistant.device_id self
   \<and> assistant (fst (snd (assist cfg self q net))) = assistant self
   \<and> deadline (fst (snd (assist cfg self q net))) = deadline self
   \<and> fst (snd (assist cfg self q net)) =
       self\<lparr>SampleTextAssistant.conversation_state :=
              SampleTextAssistant.conversation_state (fst (snd (assist cfg self q net)))\<rparr>"
  by (simp add: assist_session assist_loop_snd)

text \<open>
  Claim C2. After a sequence of successful calls of \<open>assist\<close> on one session, the held
  conversation state is the last non-empty conversation state received over all the calls
  of the sequence (and the state held before the sequence when none was received). The
  sequence makes one call per query. In particular, when no message received carried a
  non-empty state, the state held before is intact. The state is the received value
  itself, never a combination of values.
\<close>

theorem carry_forward:
  assumes "fst (assist_calls cfg self qs net) = Inr ds"
  shows "SampleTextAssistant.conversation_state (fst (snd (assist_calls cfg self qs net))) =
           carried (SampleTextAssistant.conversation_state self)
             (received_since net (snd (snd (assist_calls cfg self qs net))))
       \<and> length (exchanges (snd (snd (assist_calls cfg self qs net)))) =
           length (exchanges net) + length qs
       \<and> ((\<forall>m\<in>set (received_since net (snd (snd (assist_calls cfg self qs net)))).
              DialogStateOut.conversation_state (dialog_state_out m) = []) \<longrightarrow>
           SampleTextAssistant.conversation_state (fst (snd (assist_calls cfg self qs net))) =
             SampleTextAssistant.conversation_state self)"
proof -
  obtain new where
    new: "exchanges (snd (snd (assist_calls cfg self qs net))) = exchanges net @ new"
      "SampleTextAssistant.conversation_state (fst (snd (assist_calls cfg self qs net))) =
         carried (SampleTextAssistant.conversation_state self)
           (concat (map (\<lambda>x. received (replies x)) new))"
      "\<forall>ds. fst (assist_calls cfg self qs net) = Inr ds \<longrightarrow>
         length new = length qs \<and> length ds = length qs"
    using assist_calls_log [of cfg self qs net] by blast
  have r: "received_since net (snd (snd (assist_calls cfg self qs net))) =
      concat (map (\<lambda>x. received (replies x)) new)"
    by (simp add: received_since_def new(1))
  show ?thesis
    using new assms r carried_no_state by simp
qed

text \<open>
  Two calls: the first receives the state \<open>S1\<close>, the second receives none. The session
  holds \<open>S1\<close> after both. And one call on a session that holds \<open>S1\<close>, in which no message
  carries a state: the session still holds \<open>S1\<close>.
\<close>

theorem carry_forward_witness:
  "fst (assist_calls cfg0 self0 [''hello'', ''bye'']
          (scripted [Msg (resp S1 ''Hi!'') Done, Msg (resp [] ''Goodbye!'') Done])) =
     Inr [Some ''Hi!'', Some ''Goodbye!'']
   \<and> SampleTextAssistant.conversation_state
        (fst (snd (assist_calls cfg0 self0 [''hello'', ''bye'']
          (scripted [Msg (resp S1 ''Hi!'') Done, Msg (resp [] ''Goodbye!'') Done])))) =
       carried None [resp S1 ''Hi!'', resp [] ''Goodbye!'']
   \<and> carried None [resp S1 ''Hi!'', resp [] ''Goodbye!''] = Some S1
   \<and> fst (assist_calls cfg0 (self0\<lparr>SampleTextAssistant.conversation_state := Some S1\<rparr>) [''bye'']
          (scripted [Msg (resp [] ''Goodbye!'') Done])) = Inr [Some ''Goodbye!'']
   \<and> states_of (received_since (scripted [Msg (resp [] ''Goodbye!'') Done])
        (snd (snd (assist_calls cfg0
          (self0\<lparr>SampleTextAssistant.conversation_state := Some S1\<rparr>) [''bye'']
          (scripted [Msg (resp [] ''Goodbye!'') Done]))))) = [[]]
   \<and> SampleTextAssistant.conversation_state
        (fst (snd (assist_calls cfg0
          (self0\<lparr>SampleTextAssistant.conversation_state := Some S1\<rparr>) [''bye'']
          (scripted [Msg (resp [] ''Goodbye!'') Done])))) = Some S1"
proof -
  let ?net = "scripted [Msg (resp S1 ''Hi!'') Done, Msg (resp [] ''Goodbye!'') Done]"
  have run: "assist_calls cfg0 self0 [''hello'', ''bye''] ?net =
      (Inr [Some ''Hi!'', Some ''Goodbye!''],
       self0\<lparr>SampleTextAssistant.conversation_state := Some S1\<rparr>,
       ?net\<lparr>exchanges :=
         [\<lparr>via = channel (assistant self0), sent = iter_assist_requests cfg0 self0 ''hello'',
           within = deadline self0, replies = Msg (resp S1 ''Hi!'') Done\<rparr>,
          \<lparr>via = channel (assistant self0),
           sent = iter_assist_requests cfg0
             (self0\<lparr>SampleTextAssistant.conversation_state := Some S1\<rparr>) ''bye'',
           within = deadline self0, replies = Msg (resp [] ''Goodbye!'') Done\<rparr>]\<rparr>)"
    by (simp add: assist_eval delivered_def scripted_def resp_def S1_def)
  have ok: "fst (assist_calls cfg0 self0 [''hello'', ''bye''] ?net) =
      Inr [Some ''Hi!'', Some ''Goodbye!'']"
    by (simp only: run fst_conv)
  have since: "received_since ?net (snd (snd (assist_calls cfg0 self0 [''hello'', ''bye''] ?net))) =
      [resp S1 ''Hi!'', resp [] ''Goodbye!'']"
    unfolding run by (simp add: received_since_def scripted_def)
  have c: "carried None [resp S1 ''Hi!'', resp [] ''Goodbye!''] = Some S1"
    by (simp add: carried_def states_of_def last_nonempty_def resp_def S1_def)
  have init: "SampleTextAssistant.conversation_state self0 = None"
    by (simp add: self0_def SampleTextAssistant_init_def)
  have "SampleTextAssistant.conversation_state
          (fst (snd (assist_calls cfg0 self0 [''hello'', ''bye''] ?net))) =
        carried (SampleTextAssistant.conversation_state self0)
          (received_since ?net (snd (snd (assist_calls cfg0 self0 [''hello'', ''bye''] ?net))))"
    using carry_forward [OF ok] by (rule conjunct1)
  then have first: "SampleTextAssistant.conversation_state
          (fst (snd (assist_calls cfg0 self0 [''hello'', ''bye''] ?net))) =
        carried None [resp S1 ''Hi!'', resp [] ''Goodbye!'']"
    by (simp only: since init)
  let ?self1 = "self0\<lparr>SampleTextAssistant.conversation_state := Some S1\<rparr>"
  let ?net1 = "scripted [Msg (resp [] ''Goodbye!'') Done]"
  have run1: "assist_calls cfg0 ?self1 [''bye''] ?net1 =
      (Inr [Some ''Goodbye!''], ?self1,
       ?net1\<lparr>exchanges :=
         [\<lparr>via = channel (assistant self0), sent = iter_assist_requests cfg0 ?self1 ''bye'',
           within = deadline self0, replies = Msg (resp [] ''Goodbye!'') Done\<rparr>]\<rparr>)"
    by (simp add: assist_eval delivered_def scripted_def resp_def S1_def)
  have ok1: "fst (assist_calls cfg0 ?self1 [''bye''] ?net1) = Inr [Some ''Goodbye!'']"
    by (simp only: run1 fst_conv)
  have since1: "received_since ?net1 (snd (snd (assist_calls cfg0 ?self1 [''bye''] ?net1))) =
      [resp [] ''Goodbye!'']"
    unfolding run1 by (simp add: received_since_def scripted_def)
  have st1: "states_of (received_since ?net1 (snd (snd (assist_calls cfg0 ?self1 [''bye''] ?net1)))) =
      [[]]"
    by (simp only: since1) (simp add: states_of_def resp_def)
  have none1: "\<forall>m\<in>set (received_since ?net1 (snd (snd (assist_calls cfg0 ?self1 [''bye''] ?net1)))).
      DialogStateOut.conversation_state (dialog_state_out m) = []"
    by (simp only: since1) (simp add: resp_def)
  have "SampleTextAssistant.conversation_state
          (fst (snd (assist_calls cfg0 ?self1 [''bye''] ?net1))) =
        SampleTextAssistant.conversation_state ?self1"
    using carry_forward [OF ok1] none1 by blast
  then have second: "SampleTextAssistant.conversation_state
          (fst (snd (assist_calls cfg0 ?self1 [''bye''] ?net1))) = Some S1"
    by simp
  from ok first c ok1 st1 second show ?thesis by blast
qed


text \<open>
  Claim C3. A call of \<open>assist\<close> sends one request. Its conversation state is empty when
  the session holds none, and is the held state itself, byte for byte, when the session
  holds one. The request carries the language code of the session, the device model id,
  the device instance id, the audio-output configuration of the static configuration and
  the user's text as given. The call is made once, through the channel of the session's
  stub, with the session's deadline.
\<close>

theorem request_sent_by_assist:
  "iter_assist_requests cfg self q =
     [\<lparr>config =
        \<lparr>AssistConfig.audio_out_config = writtenAssist.audio_out_config cfg,
         dialog_state_in =
           \<lparr>DialogStateIn.language_code = SampleTextAssistant.language_code self,
            DialogStateIn.conversation_state =
              (case SampleTextAssistant.conversation_state self of None \<Rightarrow> [] | Some b \<Rightarrow> b)\<rparr>,
         device_config =
           \<lparr>DeviceConfig.device_id = SampleTextAssistant.device_id self,
            DeviceConfig.device_model_id = SampleTextAssistant.device_model_id self\<rparr>,
         text_query = q\<rparr>\<rparr>]
   \<and> exchanges (snd (snd (assist cfg self q net))) =
       exchanges net @
         [\<lparr>via = channel (assistant self), sent = iter_assist_requests cfg self q,
           within = deadline self, replies = delivered cfg self q net\<rparr>]"
  by (simp add: assist_network iter_assist_requests_def Let_def split: option.splits)

text \<open>
  Claim C4, as the specification states it, does not hold: a call that fails after a
  message with a conversation state was received has already stored that state. Here an
  idle session receives the state \<open>S1\<close> and then the deadline is exceeded; the call fails
  and the session holds \<open>S1\<close>.
\<close>

theorem failed_call_partial_update_counterexample:
  "fst (assist cfg0 self0 ''hello''
          (scripted [Msg (resp S1 []) (Fail (Exn RpcError ''DEADLINE_EXCEEDED''))])) =
     Inl (Exn RpcError ''DEADLINE_EXCEEDED'')
   \<and> SampleTextAssistant.conversation_state self0 = None
   \<and> SampleTextAssistant.conversation_state
        (fst (snd (assist cfg0 self0 ''hello''
          (scripted [Msg (resp S1 []) (Fail (Exn RpcError ''DEADLINE_EXCEEDED''))])))) =
       Some [0x53, 0x31]"
  by (simp add: assist_eval delivered_scripted_0 resp_def S1_def self0_def
      SampleTextAssistant_init_def)

text \<open>
  Claim C4, amended. When the exchange of a call fails, \<open>assist\<close> fails with the error of
  the exchange, and the held conversation state is the last non-empty state among the
  messages received before the failure; when none of them carried a state (in particular
  when the failure comes before any message) it is the state held before the call.
\<close>

theorem failed_call_keeps_received_state:
  assumes "ending (delivered cfg self q net) = Some e"
  shows "fst (assist cfg self q net) = Inl e
       \<and> SampleTextAssistant.conversation_state (fst (snd (assist cfg self q net))) =
           carried (SampleTextAssistant.conversation_state self)
             (received (delivered cfg self q net))
       \<and> ((\<forall>m\<in>set (received (delivered cfg self q net)).
              DialogStateOut.conversation_state (dialog_state_out m) = []) \<longrightarrow>
           SampleTextAssistant.conversation_state (fst (snd (assist cfg self q net))) =
             SampleTextAssistant.conversation_state self)"
  using assms carried_no_state
  by (simp add: assist_fst assist_session assist_loop_fst assist_loop_snd)

text \<open>
  A call that receives a text without state and then loses the connection fails and
  leaves the held state as it was.
\<close>

theorem failed_call_keeps_received_state_witness:
  "ending (delivered cfg0 self0 ''hello''
      (scripted [Msg (resp [] ''Hi'') (Fail (Exn RpcError ''UNAVAILABLE''))])) =
     Some (Exn RpcError ''UNAVAILABLE'')
   \<and> states_of (received (delivered cfg0 self0 ''hello''
         (scripted [Msg (resp [] ''Hi'') (Fail (Exn RpcError ''UNAVAILABLE''))]))) = [[]]
   \<and> fst (assist cfg0 self0 ''hello''
        (scripted [Msg (resp [] ''Hi'') (Fail (Exn RpcError ''UNAVAILABLE''))])) =
       Inl (Exn RpcError ''UNAVAILABLE'')
   \<and> SampleTextAssistant.conversation_state
        (fst (snd (assist cfg0 self0 ''hello''
          (scripted [Msg (resp [] ''Hi'') (Fail (Exn RpcError ''UNAVAILABLE''))])))) =
       SampleTextAssistant.conversation_state self0"
proof -
  let ?net = "scripted [Msg (resp [] ''Hi'') (Fail (Exn RpcError ''UNAVAILABLE''))]"
  have d: "delivered cfg0 self0 ''hello'' ?net =
      Msg (resp [] ''Hi'') (Fail (Exn RpcError ''UNAVAILABLE''))"
    by (simp add: delivered_scripted_0)
  have e: "ending (delivered cfg0 self0 ''hello'' ?net) = Some (Exn RpcError ''UNAVAILABLE'')"
    by (simp add: d)
  have n: "\<forall>m\<in>set (received (delivered cfg0 self0 ''hello'' ?net)).
      DialogStateOut.conversation_state (dialog_state_out m) = []"
    by (simp add: delivered_scripted_0 resp_def)
  have l: "states_of (received (delivered cfg0 self0 ''hello'' ?net)) = [[]]"
    by (simp add: delivered_scripted_0 states_of_def resp_def)
  show ?thesis
    using failed_call_keeps_received_state [OF e] e n l by blast
qed

section \<open>Properties of \<^verbatim>\<open>main\<close>\<close>

text \<open>
  Claim C5, as the specification states it, does not hold: the program does not print an
  absent reply as an empty line. \<^verbatim>\<open>'%s' % None\<close> is the text \<^verbatim>\<open>None\<close>, and that
  is what \<^verbatim>\<open>click.echo\<close> is given. Here the only message of the exchange carries a
  state and no display text: \<open>assist\<close> returns \<open>None\<close> without an error, and the
  single-shot run prints the line \<^verbatim>\<open>None\<close>, not an empty line.
\<close>

theorem absent_reply_blank_line_counterexample:
  "fst (assist cfg0 self0 ''hello'' (scripted [Msg (resp S1 []) Done])) = Inr None
   \<and> outcome (main cfg0 env0 (scripted [Msg (resp S1 []) Done]) args0) = Returned
   \<and> events (main cfg0 env0 (scripted [Msg (resp S1 []) Done]) args0) =
       [ChannelCreated (secure_authorized_channel creds0 ''embeddedassistant.googleapis.com''),
        Echo ''None'']
   \<and> Echo [] \<notin> set (events (main cfg0 env0 (scripted [Msg (resp S1 []) Done]) args0))"
  by (simp add: main_single_shot_eval assist_fst delivered_scripted_0 resp_def)

text \<open>
  Claim C5, amended. For every call whose exchange completes and of which no message
  carries display text, whatever the session holds and whatever calls came before,
  \<open>assist\<close> returns the absent reply \<open>None\<close> and raises no error, and the program
  prints that reply as the word \<^verbatim>\<open>None\<close>. In single-shot mode the run makes one
  call; when it is such a call the run prints the line \<^verbatim>\<open>None\<close> and returns normally.
  In interactive mode, for every call \<open>i\<close> of the run that is such a call, the line
  number \<open>i\<close> the run prints is the configured output label, a space and \<^verbatim>\<open>None\<close>.
\<close>

theorem absent_reply_is_printed_as_None:
  "(ending (delivered cfg self q net) = None \<longrightarrow>
      (\<forall>m\<in>set (received (delivered cfg self q net)).
          supplemental_display_text (dialog_state_out m) = []) \<longrightarrow>
      fst (assist cfg self q net) = Inr None)
   \<and> (\<forall>creds. load_credentials env (arguments.credentials args) = Inr creds \<longrightarrow>
        (truthy_input (input args) \<longrightarrow>
           (\<exists>x. calls_since net (network (main cfg env net args)) = [x]
              \<and> (completes x \<longrightarrow> no_display_text x \<longrightarrow>
                   outcome (main cfg env net args) = Returned
                 \<and> events (main cfg env net args) =
                     [ChannelCreated (secure_authorized_channel creds (api_endpoint args)),
                      Echo ''None''])))
      \<and> (\<not> truthy_input (input args) \<longrightarrow>
           (\<forall>i. i < length (calls_since net (network (main cfg env net args))) \<longrightarrow>
                completes (calls_since net (network (main cfg env net args)) ! i) \<longrightarrow>
                no_display_text (calls_since net (network (main cfg env net args)) ! i) \<longrightarrow>
                i < length (echoes (events (main cfg env net args)))
              \<and> echoes (events (main cfg env net args)) ! i = promptOut cfg @ '' None'')))"
proof -
  have a: "ending (delivered cfg self q net) = None \<longrightarrow>
      (\<forall>m\<in>set (received (delivered cfg self q net)).
          supplemental_display_text (dialog_state_out m) = []) \<longrightarrow>
      fst (assist cfg self q net) = Inr None"
    using assist_no_text [of cfg self q net] by blast
  have b: "\<forall>creds. load_credentials env (arguments.credentials args) = Inr creds \<longrightarrow>
        truthy_input (input args) \<longrightarrow>
           (\<exists>x. calls_since net (network (main cfg env net args)) = [x]
              \<and> (completes x \<longrightarrow> no_display_text x \<longrightarrow>
                   outcome (main cfg env net args) = Returned
                 \<and> events (main cfg env net args) =
                     [ChannelCreated (secure_authorized_channel creds (api_endpoint args)),
                      Echo ''None'']))"
    using main_single_shot_call [of env args _ net cfg] by blast
  have c: "\<forall>creds. load_credentials env (arguments.credentials args) = Inr creds \<longrightarrow>
        \<not> truthy_input (input args) \<longrightarrow>
           (\<forall>i. i < length (calls_since net (network (main cfg env net args))) \<longrightarrow>
                completes (calls_since net (network (main cfg env net args)) ! i) \<longrightarrow>
                no_display_text (calls_since net (network (main cfg env net args)) ! i) \<longrightarrow>
                i < length (echoes (events (main cfg env net args)))
              \<and> echoes (events (main cfg env net args)) ! i = promptOut cfg @ '' None'')"
  proof (intro allI impI)
    fix creds i
    assume l: "load_credentials env (arguments.credentials args) = Inr creds"
      and f: "\<not> truthy_input (input args)"
      and i: "i < length (calls_since net (network (main cfg env net args)))"
      and co: "completes (calls_since net (network (main cfg env net args)) ! i)"
      and nd: "no_display_text (calls_since net (network (main cfg env net args)) ! i)"
    show "i < length (echoes (events (main cfg env net args)))
        \<and> echoes (events (main cfg env net args)) ! i = promptOut cfg @ '' None''"
      using main_interactive_echoes [OF l f i co] no_display_text_reply [OF nd] by simp
  qed
  from a b c show ?thesis by blast
qed


text \<open>
  A call on a session that already holds a state; a single-shot run; and an interactive
  run of two turns whose first turn gets the reply \<^verbatim>\<open>Hi!\<close> and whose second turn
  receives a state and no text: the second line printed is the label and \<^verbatim>\<open>None\<close>.
\<close>

theorem absent_reply_is_printed_as_None_witness:
  "ending (delivered cfg0 (self0\<lparr>SampleTextAssistant.conversation_state := Some S1\<rparr>) ''bye''
      (scripted [Msg (resp S2 []) Done])) = None
   \<and> texts_of (received (delivered cfg0
        (self0\<lparr>SampleTextAssistant.conversation_state := Some S1\<rparr>) ''bye''
        (scripted [Msg (resp S2 []) Done]))) = [[]]
   \<and> fst (assist cfg0 (self0\<lparr>SampleTextAssistant.conversation_state := Some S1\<rparr>) ''bye''
        (scripted [Msg (resp S2 []) Done])) = Inr None
   \<and> load_credentials env0 (arguments.credentials args0) = Inr creds0
   \<and> truthy_input (input args0)
   \<and> map replies (calls_since (scripted [Msg (resp S1 []) Done])
        (network (main cfg0 env0 (scripted [Msg (resp S1 []) Done]) args0))) =
       [Msg (resp S1 []) Done]
   \<and> outcome (main cfg0 env0 (scripted [Msg (resp S1 []) Done]) args0) = Returned
   \<and> events (main cfg0 env0 (scripted [Msg (resp S1 []) Done]) args0) =
       [ChannelCreated (secure_authorized_channel creds0 ''embeddedassistant.googleapis.com''),
        Echo ''None'']
   \<and> load_credentials (env0\<lparr>stdin := [''hello'', ''bye'']\<rparr>)
        (arguments.credentials (args0\<lparr>input := PyFalse\<rparr>)) = Inr creds0
   \<and> \<not> truthy_input (input (args0\<lparr>input := PyFalse\<rparr>))
   \<and> map replies (calls_since (scripted [Msg (resp S1 ''Hi!'') Done, Msg (resp S2 []) Done])
        (network (main cfg0 (env0\<lparr>stdin := [''hello'', ''bye'']\<rparr>)
          (scripted [Msg (resp S1 ''Hi!'') Done, Msg (resp S2 []) Done])
          (args0\<lparr>input := PyFalse\<rparr>)))) =
       [Msg (resp S1 ''Hi!'') Done, Msg (resp S2 []) Done]
   \<and> echoes (events (main cfg0 (env0\<lparr>stdin := [''hello'', ''bye'']\<rparr>)
        (scripted [Msg (resp S1 ''Hi!'') Done, Msg (resp S2 []) Done])
        (args0\<lparr>input := PyFalse\<rparr>))) ! 1 = ''<@assistant> None''"
proof -
  let ?self1 = "self0\<lparr>SampleTextAssistant.conversation_state := Some S1\<rparr>"
  let ?netA = "scripted [Msg (resp S2 []) Done]"
  let ?netB = "scripted [Msg (resp S1 []) Done]"
  let ?envC = "env0\<lparr>stdin := [''hello'', ''bye'']\<rparr>"
  let ?netC = "scripted [Msg (resp S1 ''Hi!'') Done, Msg (resp S2 []) Done]"
  let ?argsC = "args0\<lparr>input := PyFalse\<rparr>"
  let ?ch = "secure_authorized_channel creds0 ''embeddedassistant.googleapis.com''"
  txt \<open>A call on a session that already holds a state.\<close>
  have dA: "delivered cfg0 ?self1 ''bye'' ?netA = Msg (resp S2 []) Done"
    by (rule delivered_scripted_0)
  have eA: "ending (delivered cfg0 ?self1 ''bye'' ?netA) = None"
    by (simp add: dA)
  have nA: "\<forall>m\<in>set (received (delivered cfg0 ?self1 ''bye'' ?netA)).
      supplemental_display_text (dialog_state_out m) = []"
    by (simp add: delivered_scripted_0 resp_def)
  have tA: "texts_of (received (delivered cfg0 ?self1 ''bye'' ?netA)) = [[]]"
    by (simp add: delivered_scripted_0 texts_of_def resp_def)
  have rA: "fst (assist cfg0 ?self1 ''bye'' ?netA) = Inr None"
    using absent_reply_is_printed_as_None [of cfg0 ?self1 "''bye''" ?netA] eA nA by blast
  txt \<open>The single-shot run.\<close>
  have lB: "load_credentials env0 (arguments.credentials args0) = Inr creds0"
    by (simp add: args0_def load_env0)
  have iB: "truthy_input (input args0)" "api_endpoint args0 = ''embeddedassistant.googleapis.com''"
    by (simp_all add: args0_def)
  note cB = main_single_shot_silent_eval
  obtain x where x: "calls_since ?netB (network (main cfg0 env0 ?netB args0)) = [x]"
      "completes x \<longrightarrow> no_display_text x \<longrightarrow>
         outcome (main cfg0 env0 ?netB args0) = Returned
       \<and> events (main cfg0 env0 ?netB args0) =
           [ChannelCreated (secure_authorized_channel creds0 (api_endpoint args0)), Echo ''None'']"
    using absent_reply_is_printed_as_None [of cfg0 _ _ ?netB env0 args0] lB iB(1) by blast
  have "replies x = Msg (resp S1 []) Done"
    using cB x(1) by simp
  then have "completes x" "no_display_text x"
    by (simp_all add: completes_def no_display_text_def resp_def)
  with x(2) have rB: "outcome (main cfg0 env0 ?netB args0) = Returned
       \<and> events (main cfg0 env0 ?netB args0) = [ChannelCreated ?ch, Echo ''None'']"
    by (simp add: iB(2))
  txt \<open>The interactive run: the second turn receives no display text.\<close>
  have lC: "load_credentials ?envC (arguments.credentials ?argsC) = Inr creds0"
    by (simp add: load_credentials_def env0_def args0_def creds0_def)
  have iC: "\<not> truthy_input (input ?argsC)"
    by simp
  note cC = main_second_turn_silent_eval
  have len: "1 < length (calls_since ?netC (network (main cfg0 ?envC ?netC ?argsC)))"
    using arg_cong [OF cC, of length] by simp
  have "replies (calls_since ?netC (network (main cfg0 ?envC ?netC ?argsC)) ! 1) =
      Msg (resp S2 []) Done"
    using arg_cong [OF cC, of "\<lambda>xs. xs ! 1"] len by simp
  then have sC: "completes (calls_since ?netC (network (main cfg0 ?envC ?netC ?argsC)) ! 1)"
      "no_display_text (calls_since ?netC (network (main cfg0 ?envC ?netC ?argsC)) ! 1)"
    by (simp_all add: completes_def no_display_text_def resp_def)
  have "echoes (events (main cfg0 ?envC ?netC ?argsC)) ! 1 = promptOut cfg0 @ '' None''"
    using absent_reply_is_printed_as_None [of cfg0 _ _ ?netC ?envC ?argsC] lC iC len sC by blast
  then have rC: "echoes (events (main cfg0 ?envC ?netC ?argsC)) ! 1 = ''<@assistant> None''"
    by (simp add: cfg0_def)
  from eA tA rA lB iB(1) cB rB lC iC cC rC show ?thesis by blast
qed


text \<open>
  Claim C6. When loading the credential fails (the file cannot be opened, its JSON cannot
  be parsed, the credential cannot be constructed from it, or the provider rejects the
  refresh) with an exception that \<^verbatim>\<open>except Exception\<close> catches, the program logs the
  error and then the advice to run \<^verbatim>\<open>google-oauthlib-tool\<close>, and returns normally. No
  session object exists, no channel was created, and the service saw no call.
\<close>

theorem credential_failure_ends_before_session:
  assumes "open_file env (arguments.credentials args) = Inl e
         \<or> (\<exists>f. open_file env (arguments.credentials args) = Inr f \<and> json_load env f = Inl e)
         \<or> (\<exists>f kw. open_file env (arguments.credentials args) = Inr f
               \<and> json_load env f = Inr kw \<and> Credentials_init env None kw = Inl e)
         \<or> (\<exists>f kw c. open_file env (arguments.credentials args) = Inr f
               \<and> json_load env f = Inr kw \<and> Credentials_init env None kw = Inr c
               \<and> refresh env c = Inl e)"
    and "is_Exception e"
  shows "main cfg env net args =
           \<lparr>outcome = Returned,
            events = [LogError (''Error loading credentials: '' @ msg e),
                      LogError ''Run google-oauthlib-tool to initialize new OAuth 2.0 credentials.''],
            session = None, network = net\<rparr>
       \<and> channels_created (events (main cfg env net args)) = []
       \<and> exchanges (network (main cfg env net args)) = exchanges net"
proof -
  have "load_credentials env (arguments.credentials args) = Inl e"
    using assms(1) by (rule load_credentials_Inl)
  then show ?thesis
    using assms(2) by (simp add: main_failed)
qed

text \<open>
  Three runs: the file is missing, the file is not JSON, the provider rejects the refresh.
\<close>

theorem credential_failure_ends_before_session_witness:
  "main cfg0 env0 (scripted [Msg (resp S1 ''R1'') Done])
       (args0\<lparr>arguments.credentials := ''missing.json''\<rparr>) =
     \<lparr>outcome = Returned,
      events = [LogError ''Error loading credentials: No such file or directory'',
                LogError ''Run google-oauthlib-tool to initialize new OAuth 2.0 credentials.''],
      session = None, network = scripted [Msg (resp S1 ''R1'') Done]\<rparr>
   \<and> main cfg0 (env0\<lparr>json_load := \<lambda>s. Inl (Exn JSONDecodeError ''Expecting value'')\<rparr>)
       (scripted [Msg (resp S1 ''R1'') Done]) args0 =
     \<lparr>outcome = Returned,
      events = [LogError ''Error loading credentials: Expecting value'',
                LogError ''Run google-oauthlib-tool to initialize new OAuth 2.0 credentials.''],
      session = None, network = scripted [Msg (resp S1 ''R1'') Done]\<rparr>
   \<and> main cfg0 (env0\<lparr>refresh := \<lambda>c. Inl (Exn RefreshError ''invalid_grant'')\<rparr>)
       (scripted [Msg (resp S1 ''R1'') Done]) args0 =
     \<lparr>outcome = Returned,
      events = [LogError ''Error loading credentials: invalid_grant'',
                LogError ''Run google-oauthlib-tool to initialize new OAuth 2.0 credentials.''],
      session = None, network = scripted [Msg (resp S1 ''R1'') Done]\<rparr>"
proof -
  let ?net = "scripted [Msg (resp S1 ''R1'') Done]"
  have a: "open_file env0 (arguments.credentials (args0\<lparr>arguments.credentials := ''missing.json''\<rparr>)) =
      Inl (Exn OSError ''No such file or directory'')"
    by (simp add: env0_def)
  have b: "\<exists>f. open_file (env0\<lparr>json_load := \<lambda>s. Inl (Exn JSONDecodeError ''Expecting value'')\<rparr>)
        (arguments.credentials args0) = Inr f
      \<and> json_load (env0\<lparr>json_load := \<lambda>s. Inl (Exn JSONDecodeError ''Expecting value'')\<rparr>) f =
          Inl (Exn JSONDecodeError ''Expecting value'')"
    by (simp add: env0_def args0_def)
  have c: "\<exists>f kw c. open_file (env0\<lparr>refresh := \<lambda>c. Inl (Exn RefreshError ''invalid_grant'')\<rparr>)
        (arguments.credentials args0) = Inr f
      \<and> json_load (env0\<lparr>refresh := \<lambda>c. Inl (Exn RefreshError ''invalid_grant'')\<rparr>) f = Inr kw
      \<and> Credentials_init (env0\<lparr>refresh := \<lambda>c. Inl (Exn RefreshError ''invalid_grant'')\<rparr>) None kw = Inr c
      \<and> refresh (env0\<lparr>refresh := \<lambda>c. Inl (Exn RefreshError ''invalid_grant'')\<rparr>) c =
          Inl (Exn RefreshError ''invalid_grant'')"
    by (simp add: env0_def args0_def)
  have x: "is_Exception (Exn OSError ''No such file or directory'')"
    "is_Exception (Exn JSONDecodeError ''Expecting value'')"
    "is_Exception (Exn RefreshError ''invalid_grant'')"
    by (simp_all add: is_Exception_def)
  have 1: "main cfg0 env0 ?net (args0\<lparr>arguments.credentials := ''missing.json''\<rparr>) =
     \<lparr>outcome = Returned,
      events = [LogError ''Error loading credentials: No such file or directory'',
                LogError ''Run google-oauthlib-tool to initialize new OAuth 2.0 credentials.''],
      session = None, network = ?net\<rparr>"
    using credential_failure_ends_before_session
      [of env0 "args0\<lparr>arguments.credentials := ''missing.json''\<rparr>"
          "Exn OSError ''No such file or directory''" cfg0 ?net] a x(1)
    by simp
  have 2: "main cfg0 (env0\<lparr>json_load := \<lambda>s. Inl (Exn JSONDecodeError ''Expecting value'')\<rparr>)
       ?net args0 =
     \<lparr>outcome = Returned,
      events = [LogError ''Error loading credentials: Expecting value'',
                LogError ''Run google-oauthlib-tool to initialize new OAuth 2.0 credentials.''],
      session = None, network = ?net\<rparr>"
    using credential_failure_ends_before_session
      [of "env0\<lparr>json_load := \<lambda>s. Inl (Exn JSONDecodeError ''Expecting value'')\<rparr>" args0
          "Exn JSONDecodeError ''Expecting value''" cfg0 ?net] b x(2)
    by simp
  have 3: "main cfg0 (env0\<lparr>refresh := \<lambda>c. Inl (Exn RefreshError ''invalid_grant'')\<rparr>)
       ?net args0 =
     \<lparr>outcome = Returned,
      events = [LogError ''Error loading credentials: invalid_grant'',
                LogError ''Run google-oauthlib-tool to initialize new OAuth 2.0 credentials.''],
      session = None, network = ?net\<rparr>"
    using credential_failure_ends_before_session
      [of "env0\<lparr>refresh := \<lambda>c. Inl (Exn RefreshError ''invalid_grant'')\<rparr>" args0
          "Exn RefreshError ''invalid_grant''" cfg0 ?net] c x(3)
    by simp
  from 1 2 3 show ?thesis by blast
qed

text \<open>
  Claim C7. In single-shot mode (\<^verbatim>\<open>--input\<close> is a non-empty text and the credential
  loads) the program makes exactly one call of the service, whose request carries the text
  given; when \<open>assist\<close> returns, with a reply or with \<open>None\<close>, the program prints the
  returned value once and returns normally.
\<close>

theorem single_shot_calls_assist_once:
  assumes "load_credentials env (arguments.credentials args) = Inr creds"
    and "input args = PyStr t" and "t \<noteq> []"
  shows "exchanges (network (main cfg env net args)) =
           exchanges net @
             [\<lparr>via = secure_authorized_channel creds (api_endpoint args),
               sent = iter_assist_requests cfg (session0 creds args) t,
               within = grpc_deadline args,
               replies = delivered cfg (session0 creds args) t net\<rparr>]
       \<and> map (\<lambda>r. text_query (config r)) (iter_assist_requests cfg (session0 creds args) t) = [t]
       \<and> (\<forall>d. fst (assist cfg (session0 creds args) t net) = Inr d \<longrightarrow>
            outcome (main cfg env net args) = Returned
          \<and> events (main cfg env net args) =
              [ChannelCreated (secure_authorized_channel creds (api_endpoint args)),
               Echo (format_s d)])"
proof -
  have tr: "truthy_input (input args)"
    using assms(2,3) by simp
  have m: "main cfg env net args =
     (case single_shot cfg (session0 creds args) (PyStr t) net of
        (out, evs, a1, net1) \<Rightarrow>
          \<lparr>outcome = out,
           events = ChannelCreated (secure_authorized_channel creds (api_endpoint args)) # evs,
           session = Some a1, network = net1\<rparr>)"
    using tr assms(2) by (simp add: main_loaded [OF assms(1)])
  have ch: "channel (assistant (session0 creds args)) =
      secure_authorized_channel creds (api_endpoint args)"
    "deadline (session0 creds args) = grpc_deadline args"
    by (simp_all add: session0_def SampleTextAssistant_init_def)
  have 1: "exchanges (network (main cfg env net args)) =
           exchanges net @
             [\<lparr>via = secure_authorized_channel creds (api_endpoint args),
               sent = iter_assist_requests cfg (session0 creds args) t,
               within = grpc_deadline args,
               replies = delivered cfg (session0 creds args) t net\<rparr>]"
    by (simp add: m single_shot_eval assist_network ch case_prod_beta split: sum.splits)
  have 3: "\<forall>d. fst (assist cfg (session0 creds args) t net) = Inr d \<longrightarrow>
            outcome (main cfg env net args) = Returned
          \<and> events (main cfg env net args) =
              [ChannelCreated (secure_authorized_channel creds (api_endpoint args)),
               Echo (format_s d)]"
    by (simp add: m single_shot_eval case_prod_beta)
  from 1 3 assist_sent_text show ?thesis by blast
qed

text \<open>
  The stub service replies with the display text \<^verbatim>\<open>R1\<close> and the state \<open>S1\<close>: the
  program prints \<^verbatim>\<open>R1\<close>, returns, and the service saw one call.
\<close>

theorem single_shot_calls_assist_once_witness:
  "load_credentials env0 (arguments.credentials args0) = Inr creds0
   \<and> input args0 = PyStr ''hello''
   \<and> fst (assist cfg0 (session0 creds0 args0) ''hello'' (scripted [Msg (resp S1 ''R1'') Done])) =
       Inr (Some ''R1'')
   \<and> outcome (main cfg0 env0 (scripted [Msg (resp S1 ''R1'') Done]) args0) = Returned
   \<and> events (main cfg0 env0 (scripted [Msg (resp S1 ''R1'') Done]) args0) =
       [ChannelCreated (secure_authorized_channel creds0 ''embeddedassistant.googleapis.com''),
        Echo ''R1'']
   \<and> length (exchanges (network (main cfg0 env0 (scripted [Msg (resp S1 ''R1'') Done]) args0))) = 1"
proof -
  let ?net = "scripted [Msg (resp S1 ''R1'') Done]"
  have l0: "load_credentials env0 (arguments.credentials args0) = Inr creds0"
    by (simp add: args0_def load_env0)
  have i0: "input args0 = PyStr ''hello''" "api_endpoint args0 = ''embeddedassistant.googleapis.com''"
    by (simp_all add: args0_def)
  have ne: "''hello'' \<noteq> []"
    by simp
  have s0: "session0 creds0 args0 = self0"
    using session0_args0 [of "PyStr ''hello''"] by (simp add: args0_def)
  have r: "fst (assist cfg0 (session0 creds0 args0) ''hello'' ?net) = Inr (Some ''R1'')"
    by (simp add: s0 assist_fst delivered_scripted_0 resp_def)
  have x: "exchanges ?net = []"
    by (simp add: scripted_def)
  note w = single_shot_calls_assist_once [OF l0 i0(1) ne, of cfg0 ?net]
  have a: "outcome (main cfg0 env0 ?net args0) = Returned
      \<and> events (main cfg0 env0 ?net args0) =
          [ChannelCreated (secure_authorized_channel creds0 ''embeddedassistant.googleapis.com''),
           Echo ''R1'']"
    using w r i0(2) by simp
  have b: "length (exchanges (network (main cfg0 env0 ?net args0))) = 1"
    using w x by simp
  from l0 i0(1) r a b show ?thesis by blast
qed

text \<open>
  Claim C8, as the specification states it, does not hold: the program never closes the
  channel. \<^verbatim>\<open>__exit__\<close> does nothing, the channel is not the subject of a
  \<^verbatim>\<open>with\<close> statement, and no \<^verbatim>\<open>close\<close> is called anywhere. Here a single-shot run
  returns normally and another fails in the exchange; each created the channel and
  neither closed it.
\<close>

theorem channel_closed_on_exit_counterexample:
  "outcome (main cfg0 env0 (scripted [Msg (resp S1 ''R1'') Done]) args0) = Returned
   \<and> channels_created (events (main cfg0 env0 (scripted [Msg (resp S1 ''R1'') Done]) args0)) =
       [secure_authorized_channel creds0 ''embeddedassistant.googleapis.com'']
   \<and> channels_closed (events (main cfg0 env0 (scripted [Msg (resp S1 ''R1'') Done]) args0)) = []
   \<and> outcome (main cfg0 env0 (scripted [Fail (Exn RpcError ''DEADLINE_EXCEEDED'')]) args0) =
       Raised (Exn RpcError ''DEADLINE_EXCEEDED'')
   \<and> channels_closed
       (events (main cfg0 env0 (scripted [Fail (Exn RpcError ''DEADLINE_EXCEEDED'')]) args0)) = []"
  by (simp add: main_single_shot_eval resp_def)

text \<open>
  Claim C8, amended. The channel is created once, when the credential has loaded, and every
  call of the session goes through it; the program closes it on no exit path (normal
  return, interruption at the prompt, failure of an exchange, failure to load the
  credential): its release is left to the lifetime of the object. When the credential does
  not load, no channel is created and no call is made.
\<close>

theorem channel_created_once_never_closed:
  "channels_closed (events (main cfg env net args)) = []
   \<and> (\<forall>creds. load_credentials env (arguments.credentials args) = Inr creds \<longrightarrow>
         channels_created (events (main cfg env net args)) =
           [secure_authorized_channel creds (api_endpoint args)]
       \<and> (\<exists>new. exchanges (network (main cfg env net args)) = exchanges net @ new
             \<and> (\<forall>x\<in>set new. via x = secure_authorized_channel creds (api_endpoint args))))
   \<and> (\<forall>e. load_credentials env (arguments.credentials args) = Inl e \<longrightarrow>
         channels_created (events (main cfg env net args)) = []
       \<and> exchanges (network (main cfg env net args)) = exchanges net)"
proof (cases "load_credentials env (arguments.credentials args)")
  case (Inl e)
  then show ?thesis by (simp add: main_failed)
next
  case (Inr creds)
  then show ?thesis using main_loaded_trace [OF Inr, of cfg net] by simp
qed

text \<open>
  An interactive run of two turns that ends at the end of the input: one channel, two
  calls, both through it, none closed. And a run whose credential file is missing: no
  channel, no call.
\<close>

theorem channel_created_once_never_closed_witness:
  "load_credentials (env0\<lparr>stdin := [''hello'', ''bye'']\<rparr>)
      (arguments.credentials (args0\<lparr>input := PyFalse\<rparr>)) = Inr creds0
   \<and> outcome (main cfg0 (env0\<lparr>stdin := [''hello'', ''bye'']\<rparr>)
        (scripted [Msg (resp S1 ''Hi!'') Done, Msg (resp S2 ''Goodbye!'') Done])
        (args0\<lparr>input := PyFalse\<rparr>)) = Raised (Exn Abort [])
   \<and> channels_closed (events (main cfg0 (env0\<lparr>stdin := [''hello'', ''bye'']\<rparr>)
        (scripted [Msg (resp S1 ''Hi!'') Done, Msg (resp S2 ''Goodbye!'') Done])
        (args0\<lparr>input := PyFalse\<rparr>))) = []
   \<and> channels_created (events (main cfg0 (env0\<lparr>stdin := [''hello'', ''bye'']\<rparr>)
        (scripted [Msg (resp S1 ''Hi!'') Done, Msg (resp S2 ''Goodbye!'') Done])
        (args0\<lparr>input := PyFalse\<rparr>))) =
       [secure_authorized_channel creds0 ''embeddedassistant.googleapis.com'']
   \<and> length (exchanges (network (main cfg0 (env0\<lparr>stdin := [''hello'', ''bye'']\<rparr>)
        (scripted [Msg (resp S1 ''Hi!'') Done, Msg (resp S2 ''Goodbye!'') Done])
        (args0\<lparr>input := PyFalse\<rparr>)))) = 2
   \<and> list_all (\<lambda>x. via x = secure_authorized_channel creds0 ''embeddedassistant.googleapis.com'')
        (exchanges (network (main cfg0 (env0\<lparr>stdin := [''hello'', ''bye'']\<rparr>)
          (scripted [Msg (resp S1 ''Hi!'') Done, Msg (resp S2 ''Goodbye!'') Done])
          (args0\<lparr>input := PyFalse\<rparr>))))
   \<and> load_credentials env0
      (arguments.credentials (args0\<lparr>arguments.credentials := ''missing.json''\<rparr>)) =
     Inl (Exn OSError ''No such file or directory'')
   \<and> channels_created (events (main cfg0 env0 (scripted [Msg (resp S1 ''R1'') Done])
        (args0\<lparr>arguments.credentials := ''missing.json''\<rparr>))) = []
   \<and> exchanges (network (main cfg0 env0 (scripted [Msg (resp S1 ''R1'') Done])
        (args0\<lparr>arguments.credentials := ''missing.json''\<rparr>))) = []"
proof -
  let ?env = "env0\<lparr>stdin := [''hello'', ''bye'']\<rparr>"
  let ?net = "scripted [Msg (resp S1 ''Hi!'') Done, Msg (resp S2 ''Goodbye!'') Done]"
  let ?args = "args0\<lparr>input := PyFalse\<rparr>"
  let ?ch = "secure_authorized_channel creds0 ''embeddedassistant.googleapis.com''"
  have l: "load_credentials ?env (arguments.credentials ?args) = Inr creds0"
    by (simp add: load_credentials_def env0_def args0_def creds0_def)
  have i: "api_endpoint ?args = ''embeddedassistant.googleapis.com''"
    by (simp add: args0_def)
  have x: "exchanges ?net = []"
    by (simp add: scripted_def)
  note w = channel_created_once_never_closed [of cfg0 ?env ?net ?args]
  have closed: "channels_closed (events (main cfg0 ?env ?net ?args)) = []"
    using w by blast
  have created: "channels_created (events (main cfg0 ?env ?net ?args)) = [?ch]"
    using w l i by simp
  have "\<exists>new. exchanges (network (main cfg0 ?env ?net ?args)) = exchanges ?net @ new
      \<and> (\<forall>x\<in>set new. via x = ?ch)"
    using w l i by simp
  then have reused: "list_all (\<lambda>x. via x = ?ch) (exchanges (network (main cfg0 ?env ?net ?args)))"
    by (auto simp: x list_all_iff)
  have first: "load_credentials (env0\<lparr>stdin := [''hello'', ''bye'']\<rparr>)
      (arguments.credentials (args0\<lparr>input := PyFalse\<rparr>)) = Inr creds0
   \<and> outcome (main cfg0 (env0\<lparr>stdin := [''hello'', ''bye'']\<rparr>)
        (scripted [Msg (resp S1 ''Hi!'') Done, Msg (resp S2 ''Goodbye!'') Done])
        (args0\<lparr>input := PyFalse\<rparr>)) = Raised (Exn Abort [])
   \<and> channels_closed (events (main cfg0 (env0\<lparr>stdin := [''hello'', ''bye'']\<rparr>)
        (scripted [Msg (resp S1 ''Hi!'') Done, Msg (resp S2 ''Goodbye!'') Done])
        (args0\<lparr>input := PyFalse\<rparr>))) = []
   \<and> channels_created (events (main cfg0 (env0\<lparr>stdin := [''hello'', ''bye'']\<rparr>)
        (scripted [Msg (resp S1 ''Hi!'') Done, Msg (resp S2 ''Goodbye!'') Done])
        (args0\<lparr>input := PyFalse\<rparr>))) =
       [secure_authorized_channel creds0 ''embeddedassistant.googleapis.com'']
   \<and> length (exchanges (network (main cfg0 (env0\<lparr>stdin := [''hello'', ''bye'']\<rparr>)
        (scripted [Msg (resp S1 ''Hi!'') Done, Msg (resp S2 ''Goodbye!'') Done])
        (args0\<lparr>input := PyFalse\<rparr>)))) = 2
   \<and> list_all (\<lambda>x. via x = secure_authorized_channel creds0 ''embeddedassistant.googleapis.com'')
        (exchanges (network (main cfg0 (env0\<lparr>stdin := [''hello'', ''bye'']\<rparr>)
          (scripted [Msg (resp S1 ''Hi!'') Done, Msg (resp S2 ''Goodbye!'') Done])
          (args0\<lparr>input := PyFalse\<rparr>))))"
    using l closed created reused main_two_turns_eval by blast

  let ?net0 = "scripted [Msg (resp S1 ''R1'') Done]"
  let ?args0 = "args0\<lparr>arguments.credentials := ''missing.json''\<rparr>"
  have l0: "load_credentials env0 (arguments.credentials ?args0) =
      Inl (Exn OSError ''No such file or directory'')"
    by (simp add: load_credentials_def env0_def)
  have x0: "exchanges ?net0 = []"
    by (simp add: scripted_def)
  have none: "channels_created (events (main cfg0 env0 ?net0 ?args0)) = []
      \<and> exchanges (network (main cfg0 env0 ?net0 ?args0)) = exchanges ?net0"
    using channel_created_once_never_closed [of cfg0 env0 ?net0 ?args0] l0 by blast
  have second: "load_credentials env0
      (arguments.credentials (args0\<lparr>arguments.credentials := ''missing.json''\<rparr>)) =
     Inl (Exn OSError ''No such file or directory'')
   \<and> channels_created (events (main cfg0 env0 (scripted [Msg (resp S1 ''R1'') Done])
        (args0\<lparr>arguments.credentials := ''missing.json''\<rparr>))) = []
   \<and> exchanges (network (main cfg0 env0 (scripted [Msg (resp S1 ''R1'') Done])
        (args0\<lparr>arguments.credentials := ''missing.json''\<rparr>))) = []"
    using none l0 x0 by simp
  from first second show ?thesis by blast
qed

text \<open>
  Claim C10. The mode is chosen by the truth value of \<^verbatim>\<open>--input\<close>: a run with the empty
  string as input is the same run as one with the default \<^verbatim>\<open>False\<close>, which is the
  interactive mode. When the credential loads, the program shows no prompt (single-shot
  mode) exactly when the input is a non-empty string.
\<close>

theorem empty_input_selects_interactive:
  "main cfg env net (args\<lparr>input := PyStr []\<rparr>) = main cfg env net (args\<lparr>input := PyFalse\<rparr>)
   \<and> (\<forall>creds. load_credentials env (arguments.credentials args) = Inr creds \<longrightarrow>
         (prompts (events (main cfg env net args)) = []) =
           (\<exists>t. input args = PyStr t \<and> t \<noteq> []))"
proof -
  have 1: "main cfg env net (args\<lparr>input := PyStr []\<rparr>) =
      main cfg env net (args\<lparr>input := PyFalse\<rparr>)"
    by (simp add: main_def Let_def split: sum.splits)
  have 2: "\<forall>creds. load_credentials env (arguments.credentials args) = Inr creds \<longrightarrow>
         (prompts (events (main cfg env net args)) = []) =
           (\<exists>t. input args = PyStr t \<and> t \<noteq> [])"
    using main_loaded_trace [of env args _ cfg net] by (simp add: truthy_input_iff)
  from 1 2 show ?thesis by blast
qed

text \<open>
  With the empty string the run prompts; with the text \<^verbatim>\<open>hello\<close> it does not.
\<close>

theorem empty_input_selects_interactive_witness:
  "main cfg0 env0 (scripted [Msg (resp S1 ''R1'') Done]) (args0\<lparr>input := PyStr []\<rparr>) =
     main cfg0 env0 (scripted [Msg (resp S1 ''R1'') Done]) (args0\<lparr>input := PyFalse\<rparr>)
   \<and> load_credentials env0 (arguments.credentials (args0\<lparr>input := PyStr []\<rparr>)) = Inr creds0
   \<and> prompts (events (main cfg0 env0 (scripted [Msg (resp S1 ''R1'') Done])
        (args0\<lparr>input := PyStr []\<rparr>))) \<noteq> []
   \<and> load_credentials env0 (arguments.credentials args0) = Inr creds0
   \<and> input args0 = PyStr ''hello''
   \<and> prompts (events (main cfg0 env0 (scripted [Msg (resp S1 ''R1'') Done]) args0)) = []"
proof -
  let ?net = "scripted [Msg (resp S1 ''R1'') Done]"
  let ?args = "args0\<lparr>input := PyStr []\<rparr>"
  have l0: "load_credentials env0 (arguments.credentials args0) = Inr creds0"
    by (simp add: args0_def load_env0)
  have l1: "load_credentials env0 (arguments.credentials ?args) = Inr creds0"
    by (simp add: args0_def load_env0)
  have i0: "input args0 = PyStr ''hello''"
    by (simp add: args0_def)
  have a: "main cfg0 env0 ?net ?args = main cfg0 env0 ?net (args0\<lparr>input := PyFalse\<rparr>)"
    using empty_input_selects_interactive [of cfg0 env0 ?net ?args] by simp
  have "(prompts (events (main cfg0 env0 ?net ?args)) = []) =
      (\<exists>t. input ?args = PyStr t \<and> t \<noteq> [])"
    using empty_input_selects_interactive [of cfg0 env0 ?net ?args] l1 by blast
  then have b: "prompts (events (main cfg0 env0 ?net ?args)) \<noteq> []"
    by simp
  have "(prompts (events (main cfg0 env0 ?net args0)) = []) =
      (\<exists>t. input args0 = PyStr t \<and> t \<noteq> [])"
    using empty_input_selects_interactive [of cfg0 env0 ?net args0] l0 by blast
  then have c: "prompts (events (main cfg0 env0 ?net args0)) = []"
    by (simp add: i0)
  from a l1 b l0 i0 c show ?thesis by blast
qed

end
